theory Spec2Isabelle
  imports Complex_Main
begin

section \<open>JavaScript values and the JSON wire format\<close>

text \<open>
  The broker client sends \<^verbatim>\<open>Buffer.from(JSON.stringify(message))\<close> and hands
  \<^verbatim>\<open>JSON.parse(msg.content.toString())\<close> to the subscriber. The messages are plain
  object literals whose fields are strings, numbers, booleans, arrays and \<^verbatim>\<open>Date\<close>
  objects (\<^verbatim>\<open>timestamp: new Date()\<close>).

  A \<^verbatim>\<open>Date\<close> is represented by the text \<^verbatim>\<open>toISOString()\<close> returns for it (one text
  per instant). JavaScript numbers are idealised as exact reals.
\<close>

datatype Date = Date string

fun toISOString :: "Date \<Rightarrow> string" where
  "toISOString (Date text) = text"

datatype jsval =
    VUndefined
  | VNull
  | VBool bool
  | VNum real
  | VStr string
  | VDate Date
  | VArr "jsval list"
  | VObj "(string \<times> jsval) list"

text \<open>A JSON text, identified with the document it denotes.\<close>

datatype json =
    JNull
  | JBool bool
  | JNum real
  | JStr string
  | JArr "json list"
  | JObj "(string \<times> json) list"

text \<open>
  \<^verbatim>\<open>JSON.stringify\<close>: \<^verbatim>\<open>undefined\<close> has no JSON text (the result is \<^verbatim>\<open>undefined\<close>,
  here \<open>None\<close>); a \<^verbatim>\<open>Date\<close> is written through its \<^verbatim>\<open>toJSON\<close>, which is
  \<^verbatim>\<open>toISOString\<close>, as a JSON string; an \<^verbatim>\<open>undefined\<close> array element is written
  \<^verbatim>\<open>null\<close>; an object property whose value is \<^verbatim>\<open>undefined\<close> is left out.
\<close>

primrec JSON_stringify :: "jsval \<Rightarrow> json option" where
  "JSON_stringify VUndefined = None"
| "JSON_stringify VNull = Some JNull"
| "JSON_stringify (VBool b) = Some (JBool b)"
| "JSON_stringify (VNum n) = Some (JNum n)"
| "JSON_stringify (VStr s) = Some (JStr s)"
| "JSON_stringify (VDate d) = Some (JStr (toISOString d))"
| "JSON_stringify (VArr xs) =
     Some (JArr (map (\<lambda>r. case r of None \<Rightarrow> JNull | Some j \<Rightarrow> j) (map JSON_stringify xs)))"
| "JSON_stringify (VObj ps) =
     Some (JObj (List.map_filter (\<lambda>(k, r). map_option (Pair k) r)
                  (map (map_prod id JSON_stringify) ps)))"

text \<open>The value \<^verbatim>\<open>JSON.parse\<close> builds from a JSON document (no reviver is passed).\<close>

primrec fromJSON :: "json \<Rightarrow> jsval" where
  "fromJSON JNull = VNull"
| "fromJSON (JBool b) = VBool b"
| "fromJSON (JNum n) = VNum n"
| "fromJSON (JStr s) = VStr s"
| "fromJSON (JArr xs) = VArr (map fromJSON xs)"
| "fromJSON (JObj ps) = VObj (map (map_prod id fromJSON) ps)"

text \<open>
  A \<^verbatim>\<open>Buffer\<close> that carries a message body is modelled by what \<^verbatim>\<open>JSON.parse\<close> makes
  of its text: the JSON document it spells, or bytes that are not a JSON text.
\<close>

datatype Buffer = JsonText json | NotJson string

datatype error =
    Error string
  | TypeError string
  | SyntaxError string
  | NotFoundException string
  | BadRequestException string
  | PrismaRecordNotFound string

text \<open>\<^verbatim>\<open>Buffer.from(undefined)\<close> throws a \<^verbatim>\<open>TypeError\<close>.\<close>

definition Buffer_from :: "json option \<Rightarrow> error + Buffer" where
  "Buffer_from t =
     (case t of
        None \<Rightarrow> Inl (TypeError ''The first argument must be of type string or an instance of Buffer'')
      | Some j \<Rightarrow> Inr (JsonText j))"

definition JSON_parse :: "Buffer \<Rightarrow> error + jsval" where
  "JSON_parse b =
     (case b of
        JsonText j \<Rightarrow> Inr (fromJSON j)
      | NotJson s \<Rightarrow> Inl (SyntaxError ''Unexpected token''))"

section \<open>The broker client (RabbitMQClient)\<close>

text \<open>
  The class \<^verbatim>\<open>RabbitMQClient\<close> of \<^verbatim>\<open>src/gg.ts\<close>.

  The amqplib connection and channel are handles. What the client asks of them is kept,
  in order, in \<open>calls\<close>. A library call whose promise may reject takes its outcome as
  an argument (\<open>None\<close>: resolved, \<open>Some e\<close>: rejected with \<open>e\<close>).
\<close>

datatype Connection = Connection string

datatype Channel = Channel Connection

record ConsumeMessage =
  content :: Buffer
  deliveryTag :: nat

datatype amqp_call =
    ChannelPublish string string Buffer bool
  | ChannelConsume string bool
  | ChannelAck ConsumeMessage
  | ChannelNack ConsumeMessage bool bool
  | ChannelBindQueue string string string
  | ChannelClose
  | ConnectionClose

record RabbitMQClient =
  connection :: "Connection option"
  channel :: "Channel option"
  calls :: "amqp_call list"

text \<open>
  \<^verbatim>\<open>publish(exchange, routingKey, message, options)\<close> with \<open>options\<close> absent, as every
  caller of this repository leaves it: the options are \<^verbatim>\<open>{ persistent: true }\<close>.
  The \<^verbatim>\<open>catch\<close> logs and rethrows. The boolean of \<^verbatim>\<open>channel.publish\<close>, which is
  false when the channel's write buffer is full, is taken to be true; the callers of this
  repository discard it.
\<close>

definition publish ::
  "string \<Rightarrow> string \<Rightarrow> jsval \<Rightarrow> RabbitMQClient \<Rightarrow> RabbitMQClient \<times> (error + bool)" where
  "publish exchange routingKey message c =
     (case channel c of
        None \<Rightarrow> (c, Inl (Error ''Channel not initialized''))
      | Some ch \<Rightarrow>
          (case Buffer_from (JSON_stringify message) of
             Inl e \<Rightarrow> (c, Inl e)
           | Inr messageBuffer \<Rightarrow>
               (c\<lparr>calls := calls c @ [ChannelPublish exchange routingKey messageBuffer True]\<rparr>,
                Inr True)))"

text \<open>\<^verbatim>\<open>this.channel!.ack(msg)\<close> and \<^verbatim>\<open>this.channel!.nack(msg, false, true)\<close>.\<close>

definition channel_ack :: "ConsumeMessage \<Rightarrow> RabbitMQClient \<Rightarrow> error + RabbitMQClient" where
  "channel_ack msg c =
     (case channel c of
        None \<Rightarrow> Inl (TypeError ''Cannot read properties of null'')
      | Some ch \<Rightarrow> Inr (c\<lparr>calls := calls c @ [ChannelAck msg]\<rparr>))"

definition channel_nack ::
  "ConsumeMessage \<Rightarrow> bool \<Rightarrow> bool \<Rightarrow> RabbitMQClient \<Rightarrow> error + RabbitMQClient" where
  "channel_nack msg allUpTo requeue c =
     (case channel c of
        None \<Rightarrow> Inl (TypeError ''Cannot read properties of null'')
      | Some ch \<Rightarrow> Inr (c\<lparr>calls := calls c @ [ChannelNack msg allUpTo requeue]\<rparr>))"

text \<open>
  \<^verbatim>\<open>subscribe(queue, callback, options)\<close> with \<open>options\<close> absent
  (\<^verbatim>\<open>{ noAck: false }\<close>). The consumer it registers with \<^verbatim>\<open>channel.consume\<close> is
  \<open>onMessage callback\<close> below, which the channel runs once per delivery.

  The callback is the subscriber's handler: it works on the subscriber's own state \<open>'a\<close>
  and on the client (a handler may publish), and either completes or throws.
\<close>

type_synonym 'a callback =
  "jsval \<Rightarrow> 'a \<Rightarrow> RabbitMQClient \<Rightarrow> ('a \<times> RabbitMQClient) \<times> (error + unit)"

text \<open>The \<^verbatim>\<open>catch\<close> block of the consumer: reject and requeue.\<close>

definition onMessage_catch ::
  "ConsumeMessage \<Rightarrow> 'a \<Rightarrow> RabbitMQClient \<Rightarrow> ('a \<times> RabbitMQClient) \<times> (error + unit)" where
  "onMessage_catch msg a c =
     (case channel_nack msg False True c of
        Inl e \<Rightarrow> ((a, c), Inl e)
      | Inr c' \<Rightarrow> ((a, c'), Inr ()))"

definition onMessage ::
  "'a callback \<Rightarrow> ConsumeMessage option \<Rightarrow> 'a \<Rightarrow> RabbitMQClient
     \<Rightarrow> ('a \<times> RabbitMQClient) \<times> (error + unit)" where
  "onMessage callback m a c =
     (case m of
        None \<Rightarrow> ((a, c), Inr ())
      | Some msg \<Rightarrow>
          (case JSON_parse (content msg) of
             Inl e \<Rightarrow> onMessage_catch msg a c
           | Inr v \<Rightarrow>
               (case callback v a c of
                  ((a', c'), Inl e) \<Rightarrow> onMessage_catch msg a' c'
                | ((a', c'), Inr u) \<Rightarrow>
                    (case channel_ack msg c' of
                       Inl e \<Rightarrow> onMessage_catch msg a' c'
                     | Inr c'' \<Rightarrow> ((a', c''), Inr ())))))"

definition subscribe :: "string \<Rightarrow> RabbitMQClient \<Rightarrow> RabbitMQClient \<times> (error + unit)" where
  "subscribe queue c =
     (case channel c of
        None \<Rightarrow> (c, Inl (Error ''Channel not initialized''))
      | Some ch \<Rightarrow> (c\<lparr>calls := calls c @ [ChannelConsume queue False]\<rparr>, Inr ()))"

text \<open>The broker delivers the messages of a queue one at a time, in order.\<close>

fun deliver ::
  "'a callback \<Rightarrow> ConsumeMessage list \<Rightarrow> 'a \<Rightarrow> RabbitMQClient
     \<Rightarrow> ('a \<times> RabbitMQClient) \<times> (error + unit)" where
  "deliver callback [] a c = ((a, c), Inr ())"
| "deliver callback (msg # msgs) a c =
     (case onMessage callback (Some msg) a c of
        ((a', c'), Inl e) \<Rightarrow> ((a', c'), Inl e)
      | ((a', c'), Inr u) \<Rightarrow> deliver callback msgs a' c')"

text \<open>
  \<^verbatim>\<open>close()\<close>. \<open>channelClose\<close> and \<open>connectionClose\<close> are the outcomes of
  \<^verbatim>\<open>await this.channel.close()\<close> and \<^verbatim>\<open>await this.connection.close()\<close>. There is no
  \<^verbatim>\<open>try\<close> in the method: a rejected \<^verbatim>\<open>await\<close> ends it.
\<close>

definition close ::
  "error option \<Rightarrow> error option \<Rightarrow> RabbitMQClient \<Rightarrow> RabbitMQClient \<times> (error + unit)" where
  "close channelClose connectionClose c =
     (let r1 =
        (case channel c of
           None \<Rightarrow> (c, Inr ())
         | Some ch \<Rightarrow>
             (let c1 = c\<lparr>calls := calls c @ [ChannelClose]\<rparr> in
              case channelClose of Some e \<Rightarrow> (c1, Inl e) | None \<Rightarrow> (c1, Inr ())))
      in case r1 of
           (c1, Inl e) \<Rightarrow> (c1, Inl e)
         | (c1, Inr u) \<Rightarrow>
             (case connection c1 of
                None \<Rightarrow> (c1, Inr ())
              | Some conn \<Rightarrow>
                  (let c2 = c1\<lparr>calls := calls c1 @ [ConnectionClose]\<rparr> in
                   case connectionClose of Some e \<Rightarrow> (c2, Inl e) | None \<Rightarrow> (c2, Inr ()))))"

section \<open>The order service (OrderService)\<close>

text \<open>
  The class \<^verbatim>\<open>OrderService\<close> of \<^verbatim>\<open>src/ee.ts\<close>, with the types it takes from
  \<^verbatim>\<open>@ecommerce/shared-types\<close>. An order row keeps the fields the service writes or
  reads; identifiers are strings, quantities are integers, prices and amounts are numbers.
\<close>

datatype OrderStatus = PENDING | CONFIRMED | PROCESSING | SHIPPED | DELIVERED | CANCELLED | FAILED

record Stock =
  stock_quantity :: int
  stock_reserved :: int

record Product =
  product_id :: string
  product_name :: string
  product_price :: real
  product_stock :: "Stock option"

record OrderItem =
  item_productId :: string
  item_quantity :: int
  item_price :: real

record Order =
  order_id :: string
  order_userId :: string
  order_status :: OrderStatus
  order_totalAmount :: real
  order_shippingAddressId :: string
  order_items :: "OrderItem list"

record CreateOrderItem =
  productId :: string
  quantity :: int

record CreateOrderDto =
  userId :: string
  items :: "CreateOrderItem list"
  shippingAddressId :: string

text \<open>
  The repository behind \<^verbatim>\<open>this.prisma\<close>: the rows of the product table (each with
  its stock row, when it has one) and of the order table (each with its items).
\<close>

record PrismaState =
  products :: "Product list"
  orders :: "Order list"

record OrderService =
  prisma :: PrismaState
  rabbitmq :: RabbitMQClient

text \<open>\<^verbatim>\<open>prisma.product.findMany({ where: { id: { in: productIds } }, include: { stock: true } })\<close>\<close>

definition product_findMany :: "string list \<Rightarrow> PrismaState \<Rightarrow> Product list" where
  "product_findMany productIds db = filter (\<lambda>p. product_id p \<in> set productIds) (products db)"

text \<open>
  \<^verbatim>\<open>prisma.order.create\<close>; \<open>newId\<close> is the id the repository generates for the row.
\<close>

definition order_create ::
  "string \<Rightarrow> string \<Rightarrow> OrderStatus \<Rightarrow> real \<Rightarrow> string \<Rightarrow> OrderItem list \<Rightarrow> PrismaState
     \<Rightarrow> PrismaState \<times> Order" where
  "order_create newId uid st totalAmount addr its db =
     (let order = \<lparr>order_id = newId, order_userId = uid, order_status = st,
                    order_totalAmount = totalAmount, order_shippingAddressId = addr,
                    order_items = its\<rparr>
      in (db\<lparr>orders := orders db @ [order]\<rparr>, order))"

text \<open>
  \<^verbatim>\<open>prisma.order.findUnique({ where })\<close>, where \<open>where\<close> holds the id and, in
  \<^verbatim>\<open>getOrderById\<close>, the user id when one is given.
\<close>

definition order_findUnique :: "string \<Rightarrow> string option \<Rightarrow> PrismaState \<Rightarrow> Order option" where
  "order_findUnique oid uid db =
     find (\<lambda>row. order_id row = oid \<and> (case uid of None \<Rightarrow> True | Some u \<Rightarrow> order_userId row = u))
       (orders db)"

text \<open>
  \<^verbatim>\<open>prisma.order.update({ where: { id }, data: { status } })\<close>: rejects when no row has
  the id.
\<close>

definition order_update ::
  "string \<Rightarrow> OrderStatus \<Rightarrow> PrismaState \<Rightarrow> error + (PrismaState \<times> Order)" where
  "order_update oid st db =
     (case find (\<lambda>row. order_id row = oid) (orders db) of
        None \<Rightarrow> Inl (PrismaRecordNotFound ''Record to update not found'')
      | Some order \<Rightarrow>
          Inr (db\<lparr>orders :=
                     map (\<lambda>row. if order_id row = oid then row\<lparr>order_status := st\<rparr> else row) (orders db)\<rparr>,
               order\<lparr>order_status := st\<rparr>))"

text \<open>
  \<^verbatim>\<open>this.rabbitmq.publish\<close>: \<^verbatim>\<open>RabbitMQService.publish\<close> of \<^verbatim>\<open>src/uu.ts\<close> hands the
  call to the client.
\<close>

definition rabbitmq_publish ::
  "string \<Rightarrow> string \<Rightarrow> jsval \<Rightarrow> OrderService \<Rightarrow> OrderService \<times> (error + bool)" where
  "rabbitmq_publish exchange routingKey message s =
     (case publish exchange routingKey message (rabbitmq s) of
        (c, r) \<Rightarrow> (s\<lparr>rabbitmq := c\<rparr>, r))"

text \<open>
  The loop of \<^verbatim>\<open>createOrder\<close> over \<^verbatim>\<open>dto.items\<close>: looks the item's product up among
  the rows found, checks the stock row and adds to \<^verbatim>\<open>totalAmount\<close>.

  The sum and the products are exact here. The source computes them on IEEE 754 doubles
  (\<^verbatim>\<open>totalAmount += Number(product.price) * item.quantity\<close>), so the two agree where no
  operation rounds, as with whole-number prices, and may differ in the last digits
  otherwise. The properties below are about which requests are accepted and what is
  stored and published for them; none states the value of a sum that rounds.
\<close>

fun createOrder_loop :: "Product list \<Rightarrow> CreateOrderItem list \<Rightarrow> real \<Rightarrow> error + real" where
  "createOrder_loop found [] totalAmount = Inr totalAmount"
| "createOrder_loop found (item # rest) totalAmount =
     (case find (\<lambda>p. product_id p = productId item) found of
        None \<Rightarrow> Inl (NotFoundException (''Product '' @ productId item @ '' not found''))
      | Some product \<Rightarrow>
          (case product_stock product of
             None \<Rightarrow> Inl (BadRequestException (''Insufficient stock for '' @ product_name product))
           | Some stock \<Rightarrow>
               if stock_quantity stock < quantity item
               then Inl (BadRequestException (''Insufficient stock for '' @ product_name product))
               else createOrder_loop found rest
                      (totalAmount + product_price product * of_int (quantity item))))"

text \<open>
  The item rows of the new order: \<^verbatim>\<open>products.find(p => p.id === item.productId)!\<close>
  and then \<^verbatim>\<open>product.price\<close>, which throws on \<^verbatim>\<open>undefined\<close>.
\<close>

fun createOrder_items :: "Product list \<Rightarrow> CreateOrderItem list \<Rightarrow> error + OrderItem list" where
  "createOrder_items found [] = Inr []"
| "createOrder_items found (item # rest) =
     (case find (\<lambda>p. product_id p = productId item) found of
        None \<Rightarrow> Inl (TypeError ''Cannot read properties of undefined'')
      | Some product \<Rightarrow>
          (case createOrder_items found rest of
             Inl e \<Rightarrow> Inl e
           | Inr rows \<Rightarrow>
               Inr (\<lparr>item_productId = productId item, item_quantity = quantity item,
                      item_price = product_price product\<rparr> # rows)))"

definition OrderCreatedEvent ::
  "Order \<Rightarrow> CreateOrderItem list \<Rightarrow> real \<Rightarrow> Date \<Rightarrow> jsval" where
  "OrderCreatedEvent order its totalAmount now =
     VObj [(''orderId'', VStr (order_id order)),
           (''userId'', VStr (order_userId order)),
           (''items'',
              VArr (map (\<lambda>item. VObj [(''productId'', VStr (productId item)),
                                      (''quantity'', VNum (of_int (quantity item)))]) its)),
           (''totalAmount'', VNum totalAmount),
           (''timestamp'', VDate now)]"

text \<open>
  \<^verbatim>\<open>createOrder(dto)\<close>. \<open>newId\<close> is the id the repository gives the new row and
  \<open>now\<close> is \<^verbatim>\<open>new Date()\<close>.
\<close>

definition createOrder ::
  "string \<Rightarrow> Date \<Rightarrow> CreateOrderDto \<Rightarrow> OrderService \<Rightarrow> OrderService \<times> (error + Order)" where
  "createOrder newId now dto s =
     (let productIds = map productId (items dto);
          found = product_findMany productIds (prisma s)
      in if length found \<noteq> length (items dto)
         then (s, Inl (NotFoundException ''Some products not found''))
         else
           (case createOrder_loop found (items dto) 0 of
              Inl e \<Rightarrow> (s, Inl e)
            | Inr totalAmount \<Rightarrow>
                (case createOrder_items found (items dto) of
                   Inl e \<Rightarrow> (s, Inl e)
                 | Inr rows \<Rightarrow>
                     (case order_create newId (userId dto) PENDING totalAmount
                             (shippingAddressId dto) rows (prisma s) of
                        (db, order) \<Rightarrow>
                          (case rabbitmq_publish ''orders.exchange'' ''order.created''
                                  (OrderCreatedEvent order (items dto) totalAmount now)
                                  (s\<lparr>prisma := db\<rparr>) of
                             (s', Inl e) \<Rightarrow> (s', Inl e)
                           | (s', Inr b) \<Rightarrow> (s', Inr order))))))"

text \<open>
  \<^verbatim>\<open>getOrderById(orderId, userId?)\<close>: \<^verbatim>\<open>if (userId)\<close> holds for a string that is
  present and not empty.
\<close>

definition getOrderById :: "string \<Rightarrow> string option \<Rightarrow> OrderService \<Rightarrow> error + Order" where
  "getOrderById oid uid s =
     (case order_findUnique oid
             (case uid of None \<Rightarrow> None | Some u \<Rightarrow> if u = [] then None else Some u)
             (prisma s) of
        None \<Rightarrow> Inl (NotFoundException ''Order not found'')
      | Some order \<Rightarrow> Inr order)"

definition OrderCancelledEvent :: "string \<Rightarrow> Date \<Rightarrow> jsval" where
  "OrderCancelledEvent oid now =
     VObj [(''orderId'', VStr oid),
           (''reason'', VStr ''Cancelled by user''),
           (''timestamp'', VDate now)]"

definition cancelOrder ::
  "string \<Rightarrow> string option \<Rightarrow> Date \<Rightarrow> OrderService \<Rightarrow> OrderService \<times> (error + Order)" where
  "cancelOrder oid uid now s =
     (case getOrderById oid uid s of
        Inl e \<Rightarrow> (s, Inl e)
      | Inr order \<Rightarrow>
          if order_status order \<noteq> PENDING \<and> order_status order \<noteq> CONFIRMED
          then (s, Inl (BadRequestException ''Cannot cancel order in current status''))
          else
            (case order_update oid CANCELLED (prisma s) of
               Inl e \<Rightarrow> (s, Inl e)
             | Inr (db, updatedOrder) \<Rightarrow>
                 (case rabbitmq_publish ''orders.exchange'' ''order.cancelled''
                         (OrderCancelledEvent oid now) (s\<lparr>prisma := db\<rparr>) of
                    (s', Inl e) \<Rightarrow> (s', Inl e)
                  | (s', Inr b) \<Rightarrow> (s', Inr updatedOrder))))"

subsection \<open>Event handlers\<close>

record InventoryReservedEvent =
  ir_orderId :: string
  ir_success :: bool
  ir_message :: "string option"
  ir_timestamp :: Date

record InventoryFailedEvent =
  if_orderId :: string
  if_reason :: string
  if_timestamp :: Date

record PaymentCompletedEvent =
  pc_orderId :: string
  pc_transactionId :: string
  pc_amount :: real
  pc_paymentMethod :: string
  pc_timestamp :: Date

record PaymentFailedEvent =
  pf_orderId :: string
  pf_reason :: string
  pf_timestamp :: Date

definition PaymentInitiate :: "Order \<Rightarrow> Date \<Rightarrow> jsval" where
  "PaymentInitiate order now =
     VObj [(''orderId'', VStr (order_id order)),
           (''amount'', VNum (order_totalAmount order)),
           (''timestamp'', VDate now)]"

definition handleInventoryReserved ::
  "InventoryReservedEvent \<Rightarrow> Date \<Rightarrow> OrderService \<Rightarrow> OrderService \<times> (error + unit)" where
  "handleInventoryReserved event now s =
     (if ir_success event
      then
        (case order_update (ir_orderId event) CONFIRMED (prisma s) of
           Inl e \<Rightarrow> (s, Inl e)
         | Inr (db, updated) \<Rightarrow>
             (case order_findUnique (ir_orderId event) None db of
                None \<Rightarrow> (s\<lparr>prisma := db\<rparr>, Inr ())
              | Some order \<Rightarrow>
                  (case rabbitmq_publish ''payments.exchange'' ''payment.initiate''
                          (PaymentInitiate order now) (s\<lparr>prisma := db\<rparr>) of
                     (s', Inl e) \<Rightarrow> (s', Inl e)
                   | (s', Inr b) \<Rightarrow> (s', Inr ()))))
      else
        (case order_update (ir_orderId event) FAILED (prisma s) of
           Inl e \<Rightarrow> (s, Inl e)
         | Inr (db, updated) \<Rightarrow> (s\<lparr>prisma := db\<rparr>, Inr ())))"

definition handleInventoryFailed ::
  "InventoryFailedEvent \<Rightarrow> OrderService \<Rightarrow> OrderService \<times> (error + unit)" where
  "handleInventoryFailed event s =
     (case order_update (if_orderId event) FAILED (prisma s) of
        Inl e \<Rightarrow> (s, Inl e)
      | Inr (db, updated) \<Rightarrow> (s\<lparr>prisma := db\<rparr>, Inr ()))"

definition OrderConfirmed :: "PaymentCompletedEvent \<Rightarrow> Date \<Rightarrow> jsval" where
  "OrderConfirmed event now =
     VObj [(''orderId'', VStr (pc_orderId event)),
           (''transactionId'', VStr (pc_transactionId event)),
           (''timestamp'', VDate now)]"

definition handlePaymentCompleted ::
  "PaymentCompletedEvent \<Rightarrow> Date \<Rightarrow> OrderService \<Rightarrow> OrderService \<times> (error + unit)" where
  "handlePaymentCompleted event now s =
     (case order_update (pc_orderId event) PROCESSING (prisma s) of
        Inl e \<Rightarrow> (s, Inl e)
      | Inr (db, updated) \<Rightarrow>
          (case rabbitmq_publish ''orders.exchange'' ''order.confirmed''
                  (OrderConfirmed event now) (s\<lparr>prisma := db\<rparr>) of
             (s', Inl e) \<Rightarrow> (s', Inl e)
           | (s', Inr b) \<Rightarrow> (s', Inr ())))"

definition InventoryRelease :: "PaymentFailedEvent \<Rightarrow> Date \<Rightarrow> jsval" where
  "InventoryRelease event now =
     VObj [(''orderId'', VStr (pf_orderId event)),
           (''timestamp'', VDate now)]"

definition handlePaymentFailed ::
  "PaymentFailedEvent \<Rightarrow> Date \<Rightarrow> OrderService \<Rightarrow> OrderService \<times> (error + unit)" where
  "handlePaymentFailed event now s =
     (case order_update (pf_orderId event) FAILED (prisma s) of
        Inl e \<Rightarrow> (s, Inl e)
      | Inr (db, updated) \<Rightarrow>
          (case rabbitmq_publish ''inventory.exchange'' ''inventory.release''
                  (InventoryRelease event now) (s\<lparr>prisma := db\<rparr>) of
             (s', Inl e) \<Rightarrow> (s', Inl e)
           | (s', Inr b) \<Rightarrow> (s', Inr ())))"

section \<open>Notions the properties are stated with\<close>

text \<open>The status the repository holds for an order id.\<close>

definition orderStatus :: "string \<Rightarrow> OrderService \<Rightarrow> OrderStatus option" where
  "orderStatus oid s = map_option order_status (order_findUnique oid None (prisma s))"

text \<open>The row of the product table a product id resolves to.\<close>

definition productById :: "PrismaState \<Rightarrow> string \<Rightarrow> Product option" where
  "productById db pid = find (\<lambda>p. product_id p = pid) (products db)"

text \<open>Available stock as the specification defines it: quantity on hand minus reserved.\<close>

definition available :: "Stock \<Rightarrow> int" where
  "available st = stock_quantity st - stock_reserved st"

text \<open>
  Values that are their own JSON image: no \<^verbatim>\<open>undefined\<close> and no \<^verbatim>\<open>Date\<close> anywhere
  inside.
\<close>

primrec plain :: "jsval \<Rightarrow> bool" where
  "plain VUndefined = False"
| "plain VNull = True"
| "plain (VBool b) = True"
| "plain (VNum n) = True"
| "plain (VStr s) = True"
| "plain (VDate d) = False"
| "plain (VArr xs) = list_all id (map plain xs)"
| "plain (VObj ps) = list_all snd (map (map_prod id plain) ps)"

text \<open>
  The fields of an event object: values that are their own JSON image, and dates (the
  \<open>timestamp\<close> of every event schema). \<open>dateAsText\<close> is the field as it arrives.
\<close>

definition eventField :: "jsval \<Rightarrow> bool" where
  "eventField v = (case v of VDate d \<Rightarrow> True | _ \<Rightarrow> plain v)"

definition dateAsText :: "jsval \<Rightarrow> jsval" where
  "dateAsText v = (case v of VDate d \<Rightarrow> VStr (toISOString d) | _ \<Rightarrow> v)"

text \<open>A subscriber that keeps every value it is handed.\<close>

definition collect :: "(jsval list) callback" where
  "collect v a c = ((a @ [v], c), Inr ())"

subsection \<open>Concrete states\<close>

definition t0 :: Date where
  "t0 = Date ''2024-01-01T00:00:00.000Z''"

definition t1 :: Date where
  "t1 = Date ''2024-01-01T00:00:05.000Z''"

definition client0 :: RabbitMQClient where
  "client0 = \<lparr>connection = Some (Connection ''amqp://localhost:5672''),
              channel = Some (Channel (Connection ''amqp://localhost:5672'')),
              calls = []\<rparr>"

definition productP1 :: "int \<Rightarrow> int \<Rightarrow> Product" where
  "productP1 q r = \<lparr>product_id = ''P1'', product_name = ''Widget'', product_price = 10,
                     product_stock = Some \<lparr>stock_quantity = q, stock_reserved = r\<rparr>\<rparr>"

definition shop :: "int \<Rightarrow> int \<Rightarrow> OrderService" where
  "shop q r = \<lparr>prisma = \<lparr>products = [productP1 q r], orders = []\<rparr>, rabbitmq = client0\<rparr>"

definition request :: "CreateOrderItem list \<Rightarrow> CreateOrderDto" where
  "request its = \<lparr>userId = ''u1'', items = its, shippingAddressId = ''a1''\<rparr>"

definition orderO1 :: "OrderStatus \<Rightarrow> Order" where
  "orderO1 st = \<lparr>order_id = ''o1'', order_userId = ''u1'', order_status = st,
                  order_totalAmount = 20, order_shippingAddressId = ''a1'',
                  order_items = [\<lparr>item_productId = ''P1'', item_quantity = 2, item_price = 10\<rparr>]\<rparr>"

definition desk :: "OrderStatus \<Rightarrow> OrderService" where
  "desk st = \<lparr>prisma = \<lparr>products = [productP1 5 0], orders = [orderO1 st]\<rparr>, rabbitmq = client0\<rparr>"

definition reservedO1 :: InventoryReservedEvent where
  "reservedO1 = \<lparr>ir_orderId = ''o1'', ir_success = True, ir_message = None, ir_timestamp = t0\<rparr>"

definition garbled :: ConsumeMessage where
  "garbled = \<lparr>content = NotJson ''<order id=7/>'', deliveryTag = 7\<rparr>"

definition parcel :: ConsumeMessage where
  "parcel = \<lparr>content = JsonText (JObj [(''orderId'', JStr ''o1'')]), deliveryTag = 8\<rparr>"

text \<open>A subscriber that throws on every value.\<close>

definition refuse :: "(jsval list) callback" where
  "refuse v a c = ((a, c), Inl (Error ''handler failed''))"

definition failedO1 :: InventoryFailedEvent where
  "failedO1 = \<lparr>if_orderId = ''o1'', if_reason = ''out of stock'', if_timestamp = t0\<rparr>"

definition paidO1 :: PaymentCompletedEvent where
  "paidO1 = \<lparr>pc_orderId = ''o1'', pc_transactionId = ''tx1'', pc_amount = 20,
             pc_paymentMethod = ''STRIPE'', pc_timestamp = t0\<rparr>"

definition unpaidO1 :: PaymentFailedEvent where
  "unpaidO1 = \<lparr>pf_orderId = ''o1'', pf_reason = ''card declined'', pf_timestamp = t0\<rparr>"

section \<open>Lemmas on the repository and the broker client\<close>

lemma find_map_status:
  "find (\<lambda>row. order_id row = oid) xs = Some order \<Longrightarrow>
   find (\<lambda>row. order_id row = oid)
        (map (\<lambda>row. if order_id row = oid then row\<lparr>order_status := st\<rparr> else row) xs)
     = Some (order\<lparr>order_status := st\<rparr>)"
  by (induction xs) (auto split: if_splits)

lemma map_status_twice:
  "map (\<lambda>row. if order_id row = oid then row\<lparr>order_status := st\<rparr> else row)
       (map (\<lambda>row. if order_id row = oid then row\<lparr>order_status := st\<rparr> else row) xs)
   = map (\<lambda>row. if order_id row = oid then row\<lparr>order_status := st\<rparr> else row) xs"
  by (induction xs) auto

lemma order_update_found:
  "order_findUnique oid None db = Some order \<Longrightarrow>
   order_update oid st db =
     Inr (db\<lparr>orders := map (\<lambda>row. if order_id row = oid then row\<lparr>order_status := st\<rparr> else row)
                           (orders db)\<rparr>,
          order\<lparr>order_status := st\<rparr>)"
  by (simp add: order_update_def order_findUnique_def)

lemma order_findUnique_updated:
  "order_findUnique oid None db = Some order \<Longrightarrow>
   order_findUnique oid None
     (db\<lparr>orders := map (\<lambda>row. if order_id row = oid then row\<lparr>order_status := st\<rparr> else row)
                        (orders db)\<rparr>)
   = Some (order\<lparr>order_status := st\<rparr>)"
  by (simp add: order_findUnique_def find_map_status)

lemma rabbitmq_publish_ok:
  "channel (rabbitmq s) = Some ch \<Longrightarrow> JSON_stringify m = Some j \<Longrightarrow>
   rabbitmq_publish ex key m s =
     (s\<lparr>rabbitmq := (rabbitmq s)\<lparr>calls := calls (rabbitmq s) @ [ChannelPublish ex key (JsonText j) True]\<rparr>\<rparr>,
      Inr True)"
  by (simp add: rabbitmq_publish_def publish_def Buffer_from_def)

lemma stringify_PaymentInitiate:
  "JSON_stringify (PaymentInitiate order now) =
     Some (JObj [(''orderId'', JStr (order_id order)),
                 (''amount'', JNum (order_totalAmount order)),
                 (''timestamp'', JStr (toISOString now))])"
  by (simp add: PaymentInitiate_def List.map_filter_simps)

lemma stringify_OrderConfirmed:
  "JSON_stringify (OrderConfirmed event now) =
     Some (JObj [(''orderId'', JStr (pc_orderId event)),
                 (''transactionId'', JStr (pc_transactionId event)),
                 (''timestamp'', JStr (toISOString now))])"
  by (simp add: OrderConfirmed_def List.map_filter_simps)

lemma stringify_InventoryRelease:
  "JSON_stringify (InventoryRelease event now) =
     Some (JObj [(''orderId'', JStr (pf_orderId event)),
                 (''timestamp'', JStr (toISOString now))])"
  by (simp add: InventoryRelease_def List.map_filter_simps)

lemma stringify_OrderCancelledEvent:
  "JSON_stringify (OrderCancelledEvent oid now) =
     Some (JObj [(''orderId'', JStr oid),
                 (''reason'', JStr ''Cancelled by user''),
                 (''timestamp'', JStr (toISOString now))])"
  by (simp add: OrderCancelledEvent_def List.map_filter_simps)

section \<open>What each handler does to an order that exists\<close>

lemma handleInventoryReserved_success:
  assumes "channel (rabbitmq s) = Some ch"
    and "order_findUnique (ir_orderId event) None (prisma s) = Some order"
    and "ir_success event"
  shows "handleInventoryReserved event now s =
     (s\<lparr>prisma := (prisma s)\<lparr>orders :=
            map (\<lambda>row. if order_id row = ir_orderId event then row\<lparr>order_status := CONFIRMED\<rparr> else row)
                (orders (prisma s))\<rparr>,
         rabbitmq := (rabbitmq s)\<lparr>calls := calls (rabbitmq s) @
            [ChannelPublish ''payments.exchange'' ''payment.initiate''
               (JsonText (JObj [(''orderId'', JStr (order_id order)),
                                (''amount'', JNum (order_totalAmount order)),
                                (''timestamp'', JStr (toISOString now))])) True]\<rparr>\<rparr>,
      Inr ())"
  using assms
  by (simp add: handleInventoryReserved_def order_update_found order_findUnique_updated
      rabbitmq_publish_ok [OF _ stringify_PaymentInitiate])

lemma handleInventoryReserved_failure:
  assumes "order_findUnique (ir_orderId event) None (prisma s) = Some order"
    and "\<not> ir_success event"
  shows "handleInventoryReserved event now s =
     (s\<lparr>prisma := (prisma s)\<lparr>orders :=
            map (\<lambda>row. if order_id row = ir_orderId event then row\<lparr>order_status := FAILED\<rparr> else row)
                (orders (prisma s))\<rparr>\<rparr>,
      Inr ())"
  using assms by (simp add: handleInventoryReserved_def order_update_found)

lemma handleInventoryFailed_found:
  assumes "order_findUnique (if_orderId event) None (prisma s) = Some order"
  shows "handleInventoryFailed event s =
     (s\<lparr>prisma := (prisma s)\<lparr>orders :=
            map (\<lambda>row. if order_id row = if_orderId event then row\<lparr>order_status := FAILED\<rparr> else row)
                (orders (prisma s))\<rparr>\<rparr>,
      Inr ())"
  using assms by (simp add: handleInventoryFailed_def order_update_found)

lemma handlePaymentCompleted_found:
  assumes "channel (rabbitmq s) = Some ch"
    and "order_findUnique (pc_orderId event) None (prisma s) = Some order"
  shows "handlePaymentCompleted event now s =
     (s\<lparr>prisma := (prisma s)\<lparr>orders :=
            map (\<lambda>row. if order_id row = pc_orderId event then row\<lparr>order_status := PROCESSING\<rparr> else row)
                (orders (prisma s))\<rparr>,
         rabbitmq := (rabbitmq s)\<lparr>calls := calls (rabbitmq s) @
            [ChannelPublish ''orders.exchange'' ''order.confirmed''
               (JsonText (JObj [(''orderId'', JStr (pc_orderId event)),
                                (''transactionId'', JStr (pc_transactionId event)),
                                (''timestamp'', JStr (toISOString now))])) True]\<rparr>\<rparr>,
      Inr ())"
  using assms
  by (simp add: handlePaymentCompleted_def order_update_found
      rabbitmq_publish_ok [OF _ stringify_OrderConfirmed])

lemma handlePaymentFailed_found:
  assumes "channel (rabbitmq s) = Some ch"
    and "order_findUnique (pf_orderId event) None (prisma s) = Some order"
  shows "handlePaymentFailed event now s =
     (s\<lparr>prisma := (prisma s)\<lparr>orders :=
            map (\<lambda>row. if order_id row = pf_orderId event then row\<lparr>order_status := FAILED\<rparr> else row)
                (orders (prisma s))\<rparr>,
         rabbitmq := (rabbitmq s)\<lparr>calls := calls (rabbitmq s) @
            [ChannelPublish ''inventory.exchange'' ''inventory.release''
               (JsonText (JObj [(''orderId'', JStr (pf_orderId event)),
                                (''timestamp'', JStr (toISOString now))])) True]\<rparr>\<rparr>,
      Inr ())"
  using assms
  by (simp add: handlePaymentFailed_def order_update_found
      rabbitmq_publish_ok [OF _ stringify_InventoryRelease])

lemma orderStatus_updated:
  "order_findUnique oid None (prisma s) = Some order \<Longrightarrow>
   orderStatus oid
     (s\<lparr>prisma := (prisma s)\<lparr>orders :=
          map (\<lambda>row. if order_id row = oid then row\<lparr>order_status := st\<rparr> else row)
              (orders (prisma s))\<rparr>, rabbitmq := c\<rparr>) = Some st"
  "order_findUnique oid None (prisma s) = Some order \<Longrightarrow>
   orderStatus oid
     (s\<lparr>prisma := (prisma s)\<lparr>orders :=
          map (\<lambda>row. if order_id row = oid then row\<lparr>order_status := st\<rparr> else row)
              (orders (prisma s))\<rparr>\<rparr>) = Some st"
  by (simp_all add: orderStatus_def order_findUnique_updated)


section \<open>Claims on the handlers\<close>

text \<open>
  C1 (amended). For an order in state \<open>PENDING\<close> and a connected client, the handler of
  \<^verbatim>\<open>inventory.reserved\<close> with the success flag set completes, leaves the order
  \<open>CONFIRMED\<close> and publishes exactly one \<^verbatim>\<open>payment.initiate\<close> that carries the order's
  id and total amount. Run a second time with the same event, on the state the first run
  left, it completes again and leaves the repository as it was, but it publishes one more
  \<^verbatim>\<open>payment.initiate\<close> for the same order: the status is stable under redelivery, the
  publication is repeated.
\<close>

theorem handleInventoryReserved_redelivered:
  assumes ch: "channel (rabbitmq s) = Some ch"
    and found: "order_findUnique (ir_orderId event) None (prisma s) = Some order"
    and pending: "order_status order = PENDING"
    and success: "ir_success event"
    and first: "handleInventoryReserved event now s = (s1, r1)"
    and second: "handleInventoryReserved event now' s1 = (s2, r2)"
  shows "r1 = Inr () \<and>
         orderStatus (ir_orderId event) s1 = Some CONFIRMED \<and>
         calls (rabbitmq s1) = calls (rabbitmq s) @
           [ChannelPublish ''payments.exchange'' ''payment.initiate''
              (JsonText (JObj [(''orderId'', JStr (order_id order)),
                               (''amount'', JNum (order_totalAmount order)),
                               (''timestamp'', JStr (toISOString now))])) True] \<and>
         r2 = Inr () \<and>
         prisma s2 = prisma s1 \<and>
         calls (rabbitmq s2) = calls (rabbitmq s1) @
           [ChannelPublish ''payments.exchange'' ''payment.initiate''
              (JsonText (JObj [(''orderId'', JStr (order_id order)),
                               (''amount'', JNum (order_totalAmount order)),
                               (''timestamp'', JStr (toISOString now'))])) True]"
proof -
  let ?oid = "ir_orderId event"
  note h1 = handleInventoryReserved_success [OF ch found success, of now]
  from first h1 have r1: "r1 = Inr ()"
    and db1: "prisma s1 = (prisma s)\<lparr>orders :=
            map (\<lambda>row. if order_id row = ?oid then row\<lparr>order_status := CONFIRMED\<rparr> else row)
                (orders (prisma s))\<rparr>"
    and c1: "rabbitmq s1 = (rabbitmq s)\<lparr>calls := calls (rabbitmq s) @
            [ChannelPublish ''payments.exchange'' ''payment.initiate''
               (JsonText (JObj [(''orderId'', JStr (order_id order)),
                                (''amount'', JNum (order_totalAmount order)),
                                (''timestamp'', JStr (toISOString now))])) True]\<rparr>"
    by auto
  have ch1: "channel (rabbitmq s1) = Some ch"
    using ch c1 by simp
  have found1: "order_findUnique ?oid None (prisma s1) = Some (order\<lparr>order_status := CONFIRMED\<rparr>)"
    using db1 order_findUnique_updated [OF found] by simp
  note h2 = handleInventoryReserved_success [OF ch1 found1 success, of now']
  from second h2 have r2: "r2 = Inr ()"
    and db2: "prisma s2 = (prisma s1)\<lparr>orders :=
            map (\<lambda>row. if order_id row = ?oid then row\<lparr>order_status := CONFIRMED\<rparr> else row)
                (orders (prisma s1))\<rparr>"
    and c2: "calls (rabbitmq s2) = calls (rabbitmq s1) @
            [ChannelPublish ''payments.exchange'' ''payment.initiate''
               (JsonText (JObj [(''orderId'', JStr (order_id order)),
                                (''amount'', JNum (order_totalAmount order)),
                                (''timestamp'', JStr (toISOString now'))])) True]"
    by auto
  have same: "prisma s2 = prisma s1"
    unfolding db2 unfolding db1 by (simp add: map_status_twice)
  have st1: "orderStatus ?oid s1 = Some CONFIRMED"
    using found1 by (simp add: orderStatus_def)
  show ?thesis
    using r1 st1 c1 r2 same c2 by simp
qed

text \<open>The theorem at \<open>desk PENDING\<close>, with the event delivered at \<open>t0\<close> and again at \<open>t1\<close>.\<close>

theorem handleInventoryReserved_redelivered_witness:
  "snd (handleInventoryReserved reservedO1 t0 (desk PENDING)) = Inr () \<and>
   orderStatus ''o1'' (fst (handleInventoryReserved reservedO1 t0 (desk PENDING))) = Some CONFIRMED \<and>
   calls (rabbitmq (fst (handleInventoryReserved reservedO1 t0 (desk PENDING)))) =
     [ChannelPublish ''payments.exchange'' ''payment.initiate''
        (JsonText (JObj [(''orderId'', JStr ''o1''), (''amount'', JNum 20),
                         (''timestamp'', JStr ''2024-01-01T00:00:00.000Z'')])) True] \<and>
   prisma (fst (handleInventoryReserved reservedO1 t1
                  (fst (handleInventoryReserved reservedO1 t0 (desk PENDING))))) =
     prisma (fst (handleInventoryReserved reservedO1 t0 (desk PENDING))) \<and>
   calls (rabbitmq (fst (handleInventoryReserved reservedO1 t1
                  (fst (handleInventoryReserved reservedO1 t0 (desk PENDING)))))) =
     [ChannelPublish ''payments.exchange'' ''payment.initiate''
        (JsonText (JObj [(''orderId'', JStr ''o1''), (''amount'', JNum 20),
                         (''timestamp'', JStr ''2024-01-01T00:00:00.000Z'')])) True,
      ChannelPublish ''payments.exchange'' ''payment.initiate''
        (JsonText (JObj [(''orderId'', JStr ''o1''), (''amount'', JNum 20),
                         (''timestamp'', JStr ''2024-01-01T00:00:05.000Z'')])) True]"
proof -
  have ch: "channel (rabbitmq (desk PENDING)) = Some (Channel (Connection ''amqp://localhost:5672''))"
    by (simp add: desk_def client0_def)
  have found: "order_findUnique (ir_orderId reservedO1) None (prisma (desk PENDING)) = Some (orderO1 PENDING)"
    by (simp add: desk_def reservedO1_def order_findUnique_def orderO1_def)
  have pending: "order_status (orderO1 PENDING) = PENDING"
    by (simp add: orderO1_def)
  have success: "ir_success reservedO1"
    by (simp add: reservedO1_def)
  have c0: "calls (rabbitmq (desk PENDING)) = []"
    by (simp add: desk_def client0_def)
  show ?thesis
    using handleInventoryReserved_redelivered [OF ch found pending success surjective_pairing surjective_pairing, of t0 t1]
    by (simp add: c0 orderO1_def reservedO1_def t0_def t1_def)
qed

text \<open>
  C1, as stated, fails: the order of \<open>desk PENDING\<close> is \<open>CONFIRMED\<close> after the first
  delivery of \<open>reservedO1\<close>, and the second delivery of the same event publishes again.
\<close>

theorem handleInventoryReserved_republishes:
  "orderStatus ''o1'' (fst (handleInventoryReserved reservedO1 t0 (desk PENDING))) = Some CONFIRMED \<and>
   calls (rabbitmq (fst (handleInventoryReserved reservedO1 t0
                     (fst (handleInventoryReserved reservedO1 t0 (desk PENDING)))))) \<noteq>
   calls (rabbitmq (fst (handleInventoryReserved reservedO1 t0 (desk PENDING))))"
  by (simp add: orderStatus_def handleInventoryReserved_def reservedO1_def desk_def orderO1_def client0_def
      order_update_def order_findUnique_def rabbitmq_publish_def publish_def Buffer_from_def
      PaymentInitiate_def List.map_filter_simps)

lemma find_weaken:
  "find P xs = Some x \<Longrightarrow> (\<And>y. P y \<Longrightarrow> Q y) \<Longrightarrow> \<exists>y. find Q xs = Some y"
  by (induction xs) (auto split: if_splits)

text \<open>
  C2 (amended). For an order that exists, whatever its status, and a connected client, each
  of the four handlers completes without an error and leaves the order in a status fixed
  by the event alone: \<^verbatim>\<open>inventory.reserved\<close> sets \<open>CONFIRMED\<close> when its success flag is
  set and \<open>FAILED\<close> otherwise, \<^verbatim>\<open>inventory.failed\<close> and \<^verbatim>\<open>payment.failed\<close> set
  \<open>FAILED\<close>, \<^verbatim>\<open>payment.completed\<close> sets \<open>PROCESSING\<close>. A terminal order therefore
  keeps its status only when it is \<open>FAILED\<close> and the event is one that sets \<open>FAILED\<close>.
\<close>

theorem handlers_overwrite_status:
  assumes ch: "channel (rabbitmq s) = Some ch"
    and found: "order_findUnique oid None (prisma s) = Some order"
    and e1: "ir_orderId reserved = oid"
    and e2: "if_orderId failed = oid"
    and e3: "pc_orderId paid = oid"
    and e4: "pf_orderId unpaid = oid"
  shows "snd (handleInventoryReserved reserved now s) = Inr () \<and>
         orderStatus oid (fst (handleInventoryReserved reserved now s)) =
           Some (if ir_success reserved then CONFIRMED else FAILED) \<and>
         snd (handleInventoryFailed failed s) = Inr () \<and>
         orderStatus oid (fst (handleInventoryFailed failed s)) = Some FAILED \<and>
         snd (handlePaymentCompleted paid now s) = Inr () \<and>
         orderStatus oid (fst (handlePaymentCompleted paid now s)) = Some PROCESSING \<and>
         snd (handlePaymentFailed unpaid now s) = Inr () \<and>
         orderStatus oid (fst (handlePaymentFailed unpaid now s)) = Some FAILED"
proof -
  have f1: "order_findUnique (ir_orderId reserved) None (prisma s) = Some order"
    and f2: "order_findUnique (if_orderId failed) None (prisma s) = Some order"
    and f3: "order_findUnique (pc_orderId paid) None (prisma s) = Some order"
    and f4: "order_findUnique (pf_orderId unpaid) None (prisma s) = Some order"
    using found e1 e2 e3 e4 by simp_all
  have a: "snd (handleInventoryReserved reserved now s) = Inr () \<and>
         orderStatus oid (fst (handleInventoryReserved reserved now s)) =
           Some (if ir_success reserved then CONFIRMED else FAILED)"
  proof (cases "ir_success reserved")
    case True
    show ?thesis
      using True e1 found
      by (simp add: handleInventoryReserved_success [OF ch f1 True] orderStatus_updated)
  next
    case False
    show ?thesis
      using False e1 found
      by (simp add: handleInventoryReserved_failure [OF f1 False] orderStatus_updated)
  qed
  have b: "snd (handleInventoryFailed failed s) = Inr () \<and>
         orderStatus oid (fst (handleInventoryFailed failed s)) = Some FAILED"
    using e2 found by (simp add: handleInventoryFailed_found [OF f2] orderStatus_updated)
  have c: "snd (handlePaymentCompleted paid now s) = Inr () \<and>
         orderStatus oid (fst (handlePaymentCompleted paid now s)) = Some PROCESSING"
    using e3 found by (simp add: handlePaymentCompleted_found [OF ch f3] orderStatus_updated)
  have d: "snd (handlePaymentFailed unpaid now s) = Inr () \<and>
         orderStatus oid (fst (handlePaymentFailed unpaid now s)) = Some FAILED"
    using e4 found by (simp add: handlePaymentFailed_found [OF ch f4] orderStatus_updated)
  from a b c d show ?thesis by simp
qed

text \<open>
  The theorem at \<open>desk DELIVERED\<close> and at \<open>desk FAILED\<close>: a delivered order is moved to
  \<open>PROCESSING\<close> by \<^verbatim>\<open>payment.completed\<close>, a failed order stays \<open>FAILED\<close> under
  \<^verbatim>\<open>payment.failed\<close>.
\<close>

theorem handlers_overwrite_status_witness:
  "orderStatus ''o1'' (desk DELIVERED) = Some DELIVERED \<and>
   snd (handlePaymentCompleted paidO1 t0 (desk DELIVERED)) = Inr () \<and>
   orderStatus ''o1'' (fst (handlePaymentCompleted paidO1 t0 (desk DELIVERED))) = Some PROCESSING \<and>
   orderStatus ''o1'' (desk FAILED) = Some FAILED \<and>
   snd (handlePaymentFailed unpaidO1 t0 (desk FAILED)) = Inr () \<and>
   orderStatus ''o1'' (fst (handlePaymentFailed unpaidO1 t0 (desk FAILED))) = Some FAILED"
proof -
  have ch: "\<And>st. channel (rabbitmq (desk st)) = Some (Channel (Connection ''amqp://localhost:5672''))"
    by (simp add: desk_def client0_def)
  have found: "\<And>st. order_findUnique ''o1'' None (prisma (desk st)) = Some (orderO1 st)"
    by (simp add: desk_def order_findUnique_def orderO1_def)
  have e1: "ir_orderId reservedO1 = ''o1''" by (simp add: reservedO1_def)
  have e2: "if_orderId failedO1 = ''o1''" by (simp add: failedO1_def)
  have e3: "pc_orderId paidO1 = ''o1''" by (simp add: paidO1_def)
  have e4: "pf_orderId unpaidO1 = ''o1''" by (simp add: unpaidO1_def)
  have st: "\<And>st. orderStatus ''o1'' (desk st) = Some st"
    by (simp add: orderStatus_def found orderO1_def)
  show ?thesis
    using handlers_overwrite_status [where s = "desk DELIVERED" and now = t0, OF ch found e1 e2 e3 e4]
      handlers_overwrite_status [where s = "desk FAILED" and now = t0, OF ch found e1 e2 e3 e4]
    by (simp add: st)
qed

text \<open>
  C2, as stated, fails: the order of \<open>desk CANCELLED\<close> is in a terminal state, and the
  handler of \<^verbatim>\<open>inventory.reserved\<close> moves it to \<open>CONFIRMED\<close>.
\<close>

theorem handleInventoryReserved_revives_cancelled:
  "orderStatus ''o1'' (desk CANCELLED) = Some CANCELLED \<and>
   orderStatus ''o1'' (fst (handleInventoryReserved reservedO1 t0 (desk CANCELLED))) = Some CONFIRMED"
  by (simp add: orderStatus_def handleInventoryReserved_def reservedO1_def desk_def orderO1_def
      client0_def order_update_def order_findUnique_def rabbitmq_publish_def publish_def
      Buffer_from_def PaymentInitiate_def List.map_filter_simps)

text \<open>
  C7. When \<^verbatim>\<open>getOrderById\<close> finds the order and the client is connected:
  if the status is neither \<open>PENDING\<close> nor \<open>CONFIRMED\<close>, \<^verbatim>\<open>cancelOrder\<close> fails with the
  \<^verbatim>\<open>BadRequestException\<close> "Cannot cancel order in current status" (the specification's
  \<open>InvalidState\<close>) and the service state, the order's status with it, is unchanged;
  if the status is \<open>PENDING\<close> or \<open>CONFIRMED\<close>, it returns the order with status
  \<open>CANCELLED\<close>, the repository holds \<open>CANCELLED\<close> for the id, and exactly one event is
  published, \<^verbatim>\<open>order.cancelled\<close> on \<^verbatim>\<open>orders.exchange\<close>, with the order id, the reason
  and the timestamp.
\<close>

theorem cancelOrder_by_status:
  assumes ch: "channel (rabbitmq s) = Some ch"
    and got: "getOrderById oid uid s = Inr order"
  shows "(order_status order \<noteq> PENDING \<and> order_status order \<noteq> CONFIRMED \<longrightarrow>
            cancelOrder oid uid now s =
              (s, Inl (BadRequestException ''Cannot cancel order in current status''))) \<and>
         (order_status order = PENDING \<or> order_status order = CONFIRMED \<longrightarrow>
            (\<exists>updatedOrder. snd (cancelOrder oid uid now s) = Inr updatedOrder \<and>
                order_id updatedOrder = oid \<and> order_status updatedOrder = CANCELLED) \<and>
            orderStatus oid (fst (cancelOrder oid uid now s)) = Some CANCELLED \<and>
            products (prisma (fst (cancelOrder oid uid now s))) = products (prisma s) \<and>
            calls (rabbitmq (fst (cancelOrder oid uid now s))) = calls (rabbitmq s) @
              [ChannelPublish ''orders.exchange'' ''order.cancelled''
                 (JsonText (JObj [(''orderId'', JStr oid),
                                  (''reason'', JStr ''Cancelled by user''),
                                  (''timestamp'', JStr (toISOString now))])) True])"
proof (intro conjI impI)
  assume "order_status order \<noteq> PENDING \<and> order_status order \<noteq> CONFIRMED"
  then show "cancelOrder oid uid now s =
      (s, Inl (BadRequestException ''Cannot cancel order in current status''))"
    using got by (simp add: cancelOrder_def)
next
  assume ok: "order_status order = PENDING \<or> order_status order = CONFIRMED"
  from got have "order_id order = oid"
    by (auto simp: getOrderById_def order_findUnique_def find_Some_iff split: option.splits)
  from got have "\<exists>row. find (\<lambda>row. order_id row = oid) (orders (prisma s)) = Some row"
    by (auto simp: getOrderById_def order_findUnique_def split: option.splits
        dest!: find_weaken [where Q = "\<lambda>row. order_id row = oid"])
  then obtain row where row: "order_findUnique oid None (prisma s) = Some row"
    by (auto simp: order_findUnique_def)
  then have rid: "order_id row = oid"
    by (auto simp: order_findUnique_def find_Some_iff)
  have run: "cancelOrder oid uid now s =
     (s\<lparr>prisma := (prisma s)\<lparr>orders :=
            map (\<lambda>row. if order_id row = oid then row\<lparr>order_status := CANCELLED\<rparr> else row)
                (orders (prisma s))\<rparr>,
         rabbitmq := (rabbitmq s)\<lparr>calls := calls (rabbitmq s) @
            [ChannelPublish ''orders.exchange'' ''order.cancelled''
               (JsonText (JObj [(''orderId'', JStr oid),
                                (''reason'', JStr ''Cancelled by user''),
                                (''timestamp'', JStr (toISOString now))])) True]\<rparr>\<rparr>,
      Inr (row\<lparr>order_status := CANCELLED\<rparr>))"
    using got ok ch
    by (auto simp: cancelOrder_def order_update_found [OF row]
        rabbitmq_publish_ok [OF _ stringify_OrderCancelledEvent])
  show "\<exists>updatedOrder. snd (cancelOrder oid uid now s) = Inr updatedOrder \<and>
                order_id updatedOrder = oid \<and> order_status updatedOrder = CANCELLED"
    using run rid by simp
  show "orderStatus oid (fst (cancelOrder oid uid now s)) = Some CANCELLED"
    using run orderStatus_updated(1) [OF row] by simp
  show "products (prisma (fst (cancelOrder oid uid now s))) = products (prisma s)"
    using run by simp
  show "calls (rabbitmq (fst (cancelOrder oid uid now s))) = calls (rabbitmq s) @
              [ChannelPublish ''orders.exchange'' ''order.cancelled''
                 (JsonText (JObj [(''orderId'', JStr oid),
                                  (''reason'', JStr ''Cancelled by user''),
                                  (''timestamp'', JStr (toISOString now))])) True]"
    using run by simp
qed

text \<open>
  The theorem at \<open>desk PROCESSING\<close>, where the call fails and nothing changes, and at
  \<open>desk PENDING\<close>, where the order is cancelled and the event published.
\<close>

theorem cancelOrder_by_status_witness:
  "cancelOrder ''o1'' (Some ''u1'') t0 (desk PROCESSING) =
     (desk PROCESSING, Inl (BadRequestException ''Cannot cancel order in current status'')) \<and>
   orderStatus ''o1'' (desk PROCESSING) = Some PROCESSING \<and>
   orderStatus ''o1'' (fst (cancelOrder ''o1'' (Some ''u1'') t0 (desk PENDING))) = Some CANCELLED \<and>
   calls (rabbitmq (fst (cancelOrder ''o1'' (Some ''u1'') t0 (desk PENDING)))) =
     [ChannelPublish ''orders.exchange'' ''order.cancelled''
        (JsonText (JObj [(''orderId'', JStr ''o1''),
                         (''reason'', JStr ''Cancelled by user''),
                         (''timestamp'', JStr ''2024-01-01T00:00:00.000Z'')])) True]"
proof -
  have ch: "\<And>st. channel (rabbitmq (desk st)) = Some (Channel (Connection ''amqp://localhost:5672''))"
    by (simp add: desk_def client0_def)
  have got: "\<And>st. getOrderById ''o1'' (Some ''u1'') (desk st) = Inr (orderO1 st)"
    by (simp add: getOrderById_def desk_def order_findUnique_def orderO1_def)
  have st: "\<And>st. order_status (orderO1 st) = st"
    by (simp add: orderO1_def)
  have c0: "\<And>st. calls (rabbitmq (desk st)) = []"
    by (simp add: desk_def client0_def)
  have os: "orderStatus ''o1'' (desk PROCESSING) = Some PROCESSING"
    by (simp add: orderStatus_def desk_def order_findUnique_def orderO1_def)
  show ?thesis
    using cancelOrder_by_status [where s = "desk PROCESSING" and now = t0, OF ch got]
      cancelOrder_by_status [where s = "desk PENDING" and now = t0, OF ch got]
    by (simp add: st c0 os t0_def)
qed

section \<open>Lemmas on createOrder\<close>

lemma find_filter_member:
  "pid \<in> S \<Longrightarrow>
   find (\<lambda>p. product_id p = pid) (filter (\<lambda>p. product_id p \<in> S) xs) =
   find (\<lambda>p. product_id p = pid) xs"
  by (induction xs) auto

lemma find_product_findMany:
  "item \<in> set its \<Longrightarrow>
   find (\<lambda>p. product_id p = productId item) (product_findMany (map productId its) db) =
   productById db (productId item)"
  by (simp add: product_findMany_def productById_def find_filter_member)

lemma createOrder_loop_stock:
  "createOrder_loop found its acc = Inr t \<Longrightarrow> item \<in> set its \<Longrightarrow>
   \<exists>p st. find (\<lambda>p. product_id p = productId item) found = Some p \<and>
          product_stock p = Some st \<and> quantity item \<le> stock_quantity st"
proof (induction its arbitrary: acc)
  case Nil
  then show ?case by simp
next
  case (Cons x rest)
  then show ?case
    by (auto split: option.splits if_splits)
qed

lemma createOrder_loop_BadRequest:
  assumes "\<forall>item\<in>set its. find (\<lambda>p. product_id p = productId item) found \<noteq> None"
    and "bad \<in> set its"
    and "find (\<lambda>p. product_id p = productId bad) found = Some p"
    and "product_stock p = None \<or>
         (\<exists>st. product_stock p = Some st \<and> stock_quantity st < quantity bad)"
  shows "\<exists>msg. createOrder_loop found its acc = Inl (BadRequestException msg)"
  using assms
proof (induction its arbitrary: acc)
  case Nil
  then show ?case by simp
next
  case (Cons x rest)
  then show ?case
    by (cases "x = bad") (auto split: option.splits)
qed

lemma rabbitmq_publish_prisma:
  "rabbitmq_publish ex key m s = (s', r) \<Longrightarrow> prisma s' = prisma s"
  by (auto simp: rabbitmq_publish_def split: prod.splits)

lemma rabbitmq_publish_error:
  "rabbitmq_publish ex key m s = (s', Inl e) \<Longrightarrow>
   e = Error ''Channel not initialized'' \<or>
   e = TypeError ''The first argument must be of type string or an instance of Buffer''"
  by (auto simp: rabbitmq_publish_def publish_def Buffer_from_def
      split: prod.splits option.splits sum.splits)

lemma createOrder_items_error:
  "createOrder_items found its = Inl e \<Longrightarrow> e = TypeError ''Cannot read properties of undefined''"
  by (induction its) (auto split: option.splits sum.splits)

lemma createOrder_loop_error:
  "createOrder_loop found its acc = Inl e \<Longrightarrow>
   (\<exists>m. e = NotFoundException m) \<or> (\<exists>m. e = BadRequestException m)"
  by (induction its arbitrary: acc) (auto split: option.splits if_splits)

text \<open>What a successful call has done.\<close>

lemma createOrder_Inr:
  assumes "createOrder newId now dto s = (s', Inr order)"
  shows "\<exists>t rows.
           length (product_findMany (map productId (items dto)) (prisma s)) = length (items dto) \<and>
           createOrder_loop (product_findMany (map productId (items dto)) (prisma s)) (items dto) 0 = Inr t \<and>
           createOrder_items (product_findMany (map productId (items dto)) (prisma s)) (items dto) = Inr rows \<and>
           order = \<lparr>order_id = newId, order_userId = userId dto, order_status = PENDING,
                    order_totalAmount = t, order_shippingAddressId = shippingAddressId dto,
                    order_items = rows\<rparr> \<and>
           prisma s' = (prisma s)\<lparr>orders := orders (prisma s) @ [order]\<rparr>"
  using assms
  by (auto simp: createOrder_def Let_def order_create_def
      split: if_splits sum.splits prod.splits dest!: rabbitmq_publish_prisma)

text \<open>A failure of the checks leaves the service as it was.\<close>

lemma createOrder_early:
  "length (product_findMany (map productId (items dto)) (prisma s)) \<noteq> length (items dto) \<Longrightarrow>
   createOrder newId now dto s = (s, Inl (NotFoundException ''Some products not found''))"
  "length (product_findMany (map productId (items dto)) (prisma s)) = length (items dto) \<Longrightarrow>
   createOrder_loop (product_findMany (map productId (items dto)) (prisma s)) (items dto) 0 = Inl e \<Longrightarrow>
   createOrder newId now dto s = (s, Inl e)"
  by (simp_all add: createOrder_def Let_def)

lemma createOrder_error_unchanged:
  assumes "createOrder newId now dto s = (s', Inl e)"
    and "(\<exists>m. e = NotFoundException m) \<or> (\<exists>m. e = BadRequestException m)"
  shows "s' = s"
  using assms
  by (auto simp: createOrder_def Let_def order_create_def
      split: if_splits sum.splits prod.splits
      dest!: rabbitmq_publish_error createOrder_items_error)

lemma length_product_findMany:
  assumes pk: "distinct (map product_id (products db))"
    and di: "distinct ids"
    and ex: "\<forall>pid\<in>set ids. productById db pid \<noteq> None"
  shows "length (product_findMany ids db) = length ids"
proof -
  let ?F = "product_findMany ids db"
  have d: "distinct (map product_id ?F)"
    using pk by (simp add: product_findMany_def distinct_map_filter)
  have "set ids \<subseteq> product_id ` set (products db)"
  proof
    fix pid assume "pid \<in> set ids"
    with ex have "find (\<lambda>p. product_id p = pid) (products db) \<noteq> None"
      by (simp add: productById_def)
    then show "pid \<in> product_id ` set (products db)"
      by (auto simp: find_None_iff)
  qed
  then have s: "set (map product_id ?F) = set ids"
    by (auto simp: product_findMany_def)
  have "length ?F = length (map product_id ?F)" by simp
  also have "\<dots> = card (set (map product_id ?F))"
    using d by (simp only: distinct_card)
  also have "\<dots> = card (set ids)" by (simp only: s)
  also have "\<dots> = length ids" using di by (simp only: distinct_card)
  finally show ?thesis .
qed

lemma productById_None_iff:
  "productById db pid = None \<longleftrightarrow> pid \<notin> product_id ` set (products db)"
  by (auto simp: productById_def find_None_iff)

lemma length_product_findMany_iff:
  assumes pk: "distinct (map product_id (products db))"
  shows "length (product_findMany ids db) = length ids \<longleftrightarrow>
         distinct ids \<and> (\<forall>pid\<in>set ids. productById db pid \<noteq> None)"
proof
  assume "distinct ids \<and> (\<forall>pid\<in>set ids. productById db pid \<noteq> None)"
  then show "length (product_findMany ids db) = length ids"
    using length_product_findMany [OF pk] by blast
next
  let ?F = "product_findMany ids db"
  let ?A = "set (map product_id ?F)"
  assume len: "length ?F = length ids"
  have d: "distinct (map product_id ?F)"
    using pk by (simp add: product_findMany_def distinct_map_filter)
  have sub: "?A \<subseteq> set ids"
    by (auto simp: product_findMany_def)
  have "length ?F = card ?A"
    using distinct_card [OF d] by simp
  also have "\<dots> \<le> card (set ids)"
    using sub by (simp add: card_mono)
  also have "\<dots> \<le> length ids"
    by (rule card_length)
  finally have c1: "card ?A = card (set ids)" and c2: "card (set ids) = length ids"
    using len \<open>length ?F = card ?A\<close> \<open>card ?A \<le> card (set ids)\<close> card_length [of ids]
    by linarith+
  from c2 have "distinct ids"
    by (rule card_distinct)
  moreover have "?A = set ids"
    using sub c1 by (simp add: card_subset_eq)
  then have "\<forall>pid\<in>set ids. productById db pid \<noteq> None"
    by (auto simp: productById_None_iff product_findMany_def)
  ultimately show "distinct ids \<and> (\<forall>pid\<in>set ids. productById db pid \<noteq> None)" ..
qed

lemma createOrder_loop_no_NotFound:
  assumes "\<forall>item\<in>set its. find (\<lambda>p. product_id p = productId item) found \<noteq> None"
  shows "createOrder_loop found its acc \<noteq> Inl (NotFoundException m)"
  using assms
  by (induction its arbitrary: acc) (auto split: option.splits)

text \<open>
  When the product ids of the table are pairwise distinct, \<^verbatim>\<open>createOrder\<close> fails with a
  \<^verbatim>\<open>NotFoundException\<close> exactly when an item names a product that does not exist or two
  items name the same product.
\<close>

lemma createOrder_NotFound_iff:
  assumes pk: "distinct (map product_id (products (prisma s)))"
  shows "(\<exists>m. snd (createOrder newId now dto s) = Inl (NotFoundException m)) \<longleftrightarrow>
         (\<exists>item\<in>set (items dto). productById (prisma s) (productId item) = None) \<or>
         \<not> distinct (map productId (items dto))"
proof -
  let ?ids = "map productId (items dto)"
  let ?found = "product_findMany ?ids (prisma s)"
  have len: "length ?found = length (items dto) \<longleftrightarrow>
             distinct ?ids \<and> (\<forall>item\<in>set (items dto). productById (prisma s) (productId item) \<noteq> None)"
    using length_product_findMany_iff [OF pk, of ?ids] by simp
  show ?thesis
  proof (cases "length ?found = length (items dto)")
    case False
    then have "createOrder newId now dto s = (s, Inl (NotFoundException ''Some products not found''))"
      by (rule createOrder_early(1))
    with False len show ?thesis by auto
  next
    case True
    with len have all: "\<forall>item\<in>set (items dto).
        find (\<lambda>p. product_id p = productId item) ?found \<noteq> None"
      by (simp add: find_product_findMany)
    have "snd (createOrder newId now dto s) \<noteq> Inl (NotFoundException m)" for m
      using True createOrder_loop_no_NotFound [OF all, of 0 m]
      by (auto simp: createOrder_def Let_def order_create_def
          split: sum.splits prod.splits
          dest!: rabbitmq_publish_error createOrder_items_error)
    with True len show ?thesis by auto
  qed
qed

lemma createOrder_loop_ok:
  assumes "\<forall>item\<in>set its. \<exists>p st. find (\<lambda>p. product_id p = productId item) found = Some p \<and>
             product_stock p = Some st \<and> quantity item \<le> stock_quantity st"
  shows "\<exists>t. createOrder_loop found its acc = Inr t"
  using assms
proof (induction its arbitrary: acc)
  case Nil
  then show ?case by simp
next
  case (Cons item rest)
  from Cons.prems obtain p st where
    "find (\<lambda>p. product_id p = productId item) found = Some p"
    "product_stock p = Some st" "quantity item \<le> stock_quantity st"
    by auto
  moreover from Cons.prems have "\<exists>t. createOrder_loop found rest
      (acc + product_price p * of_int (quantity item)) = Inr t"
    by (intro Cons.IH) simp
  ultimately show ?case by simp
qed

lemma createOrder_items_ok:
  assumes "\<forall>item\<in>set its. find (\<lambda>p. product_id p = productId item) found \<noteq> None"
  shows "\<exists>rows. createOrder_items found its = Inr rows"
  using assms
  by (induction its) (auto split: option.splits)

text \<open>
  A request whose items name pairwise distinct products, each with enough on hand, is
  accepted when the client is connected: the order returned has the new id and status
  \<open>PENDING\<close>, and it is the row added to the order table.
\<close>

lemma createOrder_succeeds:
  assumes pk: "distinct (map product_id (products (prisma s)))"
    and di: "distinct (map productId (items dto))"
    and ok: "\<forall>item\<in>set (items dto). \<exists>p st. productById (prisma s) (productId item) = Some p \<and>
               product_stock p = Some st \<and> quantity item \<le> stock_quantity st"
    and ch: "channel (rabbitmq s) = Some ch"
  shows "\<exists>s' order. createOrder newId now dto s = (s', Inr order) \<and>
           order_id order = newId \<and> order_status order = PENDING \<and>
           orders (prisma s') = orders (prisma s) @ [order]"
proof -
  let ?found = "product_findMany (map productId (items dto)) (prisma s)"
  have len: "length ?found = length (items dto)"
    using length_product_findMany [OF pk di] ok by fastforce
  have stock: "\<forall>item\<in>set (items dto). \<exists>p st.
      find (\<lambda>p. product_id p = productId item) ?found = Some p \<and>
      product_stock p = Some st \<and> quantity item \<le> stock_quantity st"
    using ok by (simp add: find_product_findMany)
  then have all: "\<forall>item\<in>set (items dto).
      find (\<lambda>p. product_id p = productId item) ?found \<noteq> None"
    by fastforce
  from createOrder_loop_ok [OF stock, of 0] obtain t where
    t: "createOrder_loop ?found (items dto) 0 = Inr t" ..
  from createOrder_items_ok [OF all] obtain rows where
    rows: "createOrder_items ?found (items dto) = Inr rows" ..
  have "\<exists>j. JSON_stringify (OrderCreatedEvent order (items dto) t now) = Some j" for order
    by (simp add: OrderCreatedEvent_def)
  then show ?thesis
    using len t rows ch
    by (auto simp: createOrder_def Let_def order_create_def rabbitmq_publish_def publish_def
        Buffer_from_def split: prod.splits sum.splits option.splits)
qed

section \<open>Claims on createOrder\<close>

text \<open>
  C3 (amended). \<^verbatim>\<open>createOrder\<close> succeeds only when every requested item names a product
  that exists and has a stock row whose quantity on hand is at least the requested
  quantity; the reserved quantity is not read. An item whose requested quantity exceeds
  the quantity on hand of its product makes the call fail, and the service is left as it
  was.
\<close>

theorem createOrder_checks_quantity_on_hand:
  "(createOrder newId now dto s = (s', Inr order) \<longrightarrow>
      (\<forall>item\<in>set (items dto). \<exists>p st.
          productById (prisma s) (productId item) = Some p \<and>
          product_stock p = Some st \<and> quantity item \<le> stock_quantity st)) \<and>
   (item \<in> set (items dto) \<and> productById (prisma s) (productId item) = Some p \<and>
    product_stock p = Some st \<and> stock_quantity st < quantity item \<longrightarrow>
      (\<exists>e. createOrder newId now dto s = (s, Inl e)))"
proof (intro conjI impI ballI)
  fix x
  assume ok: "createOrder newId now dto s = (s', Inr order)" and x: "x \<in> set (items dto)"
  from createOrder_Inr [OF ok] obtain t where
    "createOrder_loop (product_findMany (map productId (items dto)) (prisma s)) (items dto) 0 = Inr t"
    by blast
  from createOrder_loop_stock [OF this x] show
    "\<exists>p st. productById (prisma s) (productId x) = Some p \<and>
          product_stock p = Some st \<and> quantity x \<le> stock_quantity st"
    by (simp add: find_product_findMany [OF x])
next
  let ?found = "product_findMany (map productId (items dto)) (prisma s)"
  assume a: "item \<in> set (items dto) \<and> productById (prisma s) (productId item) = Some p \<and>
    product_stock p = Some st \<and> stock_quantity st < quantity item"
  show "\<exists>e. createOrder newId now dto s = (s, Inl e)"
  proof (cases "length ?found = length (items dto)")
    case False
    then show ?thesis by (simp add: createOrder_early(1))
  next
    case True
    show ?thesis
    proof (cases "createOrder_loop ?found (items dto) 0")
      case (Inl e)
      with True show ?thesis by (simp add: createOrder_early(2))
    next
      case (Inr t)
      from createOrder_loop_stock [OF Inr, of item] a have False
        by (auto simp: find_product_findMany)
      then show ?thesis ..
    qed
  qed
qed

text \<open>
  The theorem at the request of two units of \<open>P1\<close>: it succeeds with five on hand, and
  fails, changing nothing, with one on hand.
\<close>

theorem createOrder_checks_quantity_on_hand_witness:
  "snd (createOrder ''o1'' t0 (request [\<lparr>productId = ''P1'', quantity = 2\<rparr>]) (shop 5 0)) =
     Inr (orderO1 PENDING) \<and>
   (\<exists>p st. productById (prisma (shop 5 0)) ''P1'' = Some p \<and>
      product_stock p = Some st \<and> 2 \<le> stock_quantity st) \<and>
   (\<exists>e. createOrder ''o1'' t0 (request [\<lparr>productId = ''P1'', quantity = 2\<rparr>]) (shop 1 0) =
      (shop 1 0, Inl e))"
proof -
  have r: "snd (createOrder ''o1'' t0 (request [\<lparr>productId = ''P1'', quantity = 2\<rparr>]) (shop 5 0)) =
      Inr (orderO1 PENDING)"
    by (simp add: Let_def createOrder_def request_def shop_def productP1_def product_findMany_def
        order_create_def orderO1_def rabbitmq_publish_def publish_def client0_def
        Buffer_from_def OrderCreatedEvent_def List.map_filter_simps)
  have run: "createOrder ''o1'' t0 (request [\<lparr>productId = ''P1'', quantity = 2\<rparr>]) (shop 5 0) =
      (fst (createOrder ''o1'' t0 (request [\<lparr>productId = ''P1'', quantity = 2\<rparr>]) (shop 5 0)),
       Inr (orderO1 PENDING))"
    by (simp add: prod_eq_iff r)
  have mem: "\<lparr>productId = ''P1'', quantity = 2\<rparr> \<in> set (items (request [\<lparr>productId = ''P1'', quantity = 2\<rparr>]))"
    by (simp add: request_def)
  have low: "productById (prisma (shop 1 0)) (productId \<lparr>productId = ''P1'', quantity = 2\<rparr>) =
               Some (productP1 1 0) \<and>
             product_stock (productP1 1 0) = Some \<lparr>stock_quantity = 1, stock_reserved = 0\<rparr> \<and>
             stock_quantity \<lparr>stock_quantity = 1, stock_reserved = 0\<rparr> <
               quantity \<lparr>productId = ''P1'', quantity = 2\<rparr>"
    by (simp add: productById_def shop_def productP1_def)
  from createOrder_checks_quantity_on_hand
         [where s = "shop 5 0" and dto = "request [\<lparr>productId = ''P1'', quantity = 2\<rparr>]"
            and newId = "''o1''" and now = t0 and order = "orderO1 PENDING"
            and s' = "fst (createOrder ''o1'' t0 (request [\<lparr>productId = ''P1'', quantity = 2\<rparr>]) (shop 5 0))",
          THEN conjunct1, rule_format, OF run mem]
  have one: "\<exists>p st. productById (prisma (shop 5 0)) ''P1'' = Some p \<and>
      product_stock p = Some st \<and> 2 \<le> stock_quantity st"
    by simp
  from createOrder_checks_quantity_on_hand
         [where s = "shop 1 0" and dto = "request [\<lparr>productId = ''P1'', quantity = 2\<rparr>]"
            and newId = "''o1''" and now = t0 and item = "\<lparr>productId = ''P1'', quantity = 2\<rparr>"
            and p = "productP1 1 0" and st = "\<lparr>stock_quantity = 1, stock_reserved = 0\<rparr>",
          THEN conjunct2, rule_format, OF conjI [OF mem low]]
  have two: "\<exists>e. createOrder ''o1'' t0 (request [\<lparr>productId = ''P1'', quantity = 2\<rparr>]) (shop 1 0) =
      (shop 1 0, Inl e)" .
  from r one two show ?thesis by (intro conjI)
qed

text \<open>
  C3, as stated, fails: with five units on hand and four of them reserved, one unit is
  available, and an order for three units is accepted.
\<close>

theorem createOrder_ignores_reserved:
  "available \<lparr>stock_quantity = 5, stock_reserved = 4\<rparr> < 3 \<and>
   snd (createOrder ''o2'' t0 (request [\<lparr>productId = ''P1'', quantity = 3\<rparr>]) (shop 5 4)) =
     Inr \<lparr>order_id = ''o2'', order_userId = ''u1'', order_status = PENDING,
          order_totalAmount = 30, order_shippingAddressId = ''a1'',
          order_items = [\<lparr>item_productId = ''P1'', item_quantity = 3, item_price = 10\<rparr>]\<rparr>"
  by (simp add: available_def Let_def createOrder_def request_def shop_def productP1_def
      product_findMany_def order_create_def rabbitmq_publish_def publish_def client0_def
      Buffer_from_def OrderCreatedEvent_def List.map_filter_simps)

text \<open>
  C4 at a request that meets the preconditions and names the product \<open>P1\<close> in two of its
  items: \<open>P1\<close> exists, five units are on hand and none is reserved, two units and one
  unit are asked for. The call fails with the \<^verbatim>\<open>NotFoundException\<close> "Some products not
  found" and no order is stored. (The check that fails is the one of C6: the number of rows
  found is compared with the number of items. By \<open>createOrder_succeeds\<close> a request of
  pairwise distinct products with enough on hand is stored, with status \<open>PENDING\<close>.)
\<close>

theorem createOrder_refuses_valid_repeat:
  "productById (prisma (shop 5 0)) ''P1'' = Some (productP1 5 0) \<and>
   product_stock (productP1 5 0) = Some \<lparr>stock_quantity = 5, stock_reserved = 0\<rparr> \<and>
   2 + 1 \<le> available \<lparr>stock_quantity = 5, stock_reserved = 0\<rparr> \<and>
   snd (createOrder ''o6'' t0 (request [\<lparr>productId = ''P1'', quantity = 2\<rparr>,
                                       \<lparr>productId = ''P1'', quantity = 1\<rparr>]) (shop 5 0)) =
     Inl (NotFoundException ''Some products not found'') \<and>
   orders (prisma (fst (createOrder ''o6'' t0 (request [\<lparr>productId = ''P1'', quantity = 2\<rparr>,
                                       \<lparr>productId = ''P1'', quantity = 1\<rparr>]) (shop 5 0)))) = []"
  by (simp add: productById_def available_def Let_def createOrder_def request_def shop_def
      productP1_def product_findMany_def)

text \<open>
  C5 (amended). When the product ids of the table are pairwise distinct, the items of the
  request name pairwise distinct products that all exist, and some item asks for more than
  the quantity on hand of its product (or the product has no stock row),
  \<^verbatim>\<open>createOrder\<close> fails with a \<^verbatim>\<open>BadRequestException\<close> (the specification's
  \<open>InvalidRequest\<close>). Whenever \<^verbatim>\<open>createOrder\<close> fails with a \<^verbatim>\<open>NotFoundException\<close> or a
  \<^verbatim>\<open>BadRequestException\<close>, the service is left as it was: no order and no item row is
  stored, and nothing is published.
\<close>

theorem createOrder_insufficient_stock:
  "(distinct (map product_id (products (prisma s))) \<and>
    distinct (map productId (items dto)) \<and>
    (\<forall>x\<in>set (items dto). productById (prisma s) (productId x) \<noteq> None) \<and>
    item \<in> set (items dto) \<and> productById (prisma s) (productId item) = Some p \<and>
    (product_stock p = None \<or>
     (\<exists>st. product_stock p = Some st \<and> stock_quantity st < quantity item)) \<longrightarrow>
      (\<exists>msg. createOrder newId now dto s = (s, Inl (BadRequestException msg)))) \<and>
   (createOrder newId now dto s = (s', Inl e) \<and>
    ((\<exists>m. e = NotFoundException m) \<or> (\<exists>m. e = BadRequestException m)) \<longrightarrow>
      s' = s)"
proof (intro conjI impI)
  let ?found = "product_findMany (map productId (items dto)) (prisma s)"
  assume a: "distinct (map product_id (products (prisma s))) \<and>
    distinct (map productId (items dto)) \<and>
    (\<forall>x\<in>set (items dto). productById (prisma s) (productId x) \<noteq> None) \<and>
    item \<in> set (items dto) \<and> productById (prisma s) (productId item) = Some p \<and>
    (product_stock p = None \<or>
     (\<exists>st. product_stock p = Some st \<and> stock_quantity st < quantity item))"
  then have len: "length ?found = length (items dto)"
    using length_product_findMany [of "prisma s" "map productId (items dto)"] by simp
  have all: "\<forall>x\<in>set (items dto). find (\<lambda>p. product_id p = productId x) ?found \<noteq> None"
    using a by (simp add: find_product_findMany)
  have bad: "find (\<lambda>p. product_id p = productId item) ?found = Some p"
    using a by (simp add: find_product_findMany)
  from createOrder_loop_BadRequest [OF all _ bad, of 0] a
  obtain msg where "createOrder_loop ?found (items dto) 0 = Inl (BadRequestException msg)"
    by blast
  with len have "createOrder newId now dto s = (s, Inl (BadRequestException msg))"
    by (simp add: createOrder_early(2))
  then show "\<exists>msg. createOrder newId now dto s = (s, Inl (BadRequestException msg))" ..
next
  assume "createOrder newId now dto s = (s', Inl e) \<and>
    ((\<exists>m. e = NotFoundException m) \<or> (\<exists>m. e = BadRequestException m))"
  then show "s' = s"
    using createOrder_error_unchanged by blast
qed

text \<open>
  The theorem at a request for nine units of \<open>P1\<close> with five on hand: the call fails with
  "Insufficient stock for Widget" and the service is unchanged; and at a request for a
  product that does not exist, which fails with "Some products not found" and changes
  nothing.
\<close>

theorem createOrder_insufficient_stock_witness:
  "createOrder ''o1'' t0 (request [\<lparr>productId = ''P1'', quantity = 9\<rparr>]) (shop 5 0) =
     (shop 5 0, Inl (BadRequestException ''Insufficient stock for Widget'')) \<and>
   snd (createOrder ''o1'' t0 (request [\<lparr>productId = ''P2'', quantity = 1\<rparr>]) (shop 5 0)) =
     Inl (NotFoundException ''Some products not found'') \<and>
   fst (createOrder ''o1'' t0 (request [\<lparr>productId = ''P2'', quantity = 1\<rparr>]) (shop 5 0)) =
     shop 5 0"
proof -
  let ?item = "\<lparr>productId = ''P1'', quantity = 9\<rparr>"
  let ?none = "request [\<lparr>productId = ''P2'', quantity = 1\<rparr>]"
  have hyp: "distinct (map product_id (products (prisma (shop 5 0)))) \<and>
    distinct (map productId (items (request [?item]))) \<and>
    (\<forall>x\<in>set (items (request [?item])). productById (prisma (shop 5 0)) (productId x) \<noteq> None) \<and>
    ?item \<in> set (items (request [?item])) \<and>
    productById (prisma (shop 5 0)) (productId ?item) = Some (productP1 5 0) \<and>
    (product_stock (productP1 5 0) = None \<or>
     (\<exists>st. product_stock (productP1 5 0) = Some st \<and> stock_quantity st < quantity ?item))"
    by (simp add: shop_def request_def productById_def productP1_def)
  from createOrder_insufficient_stock
         [where s = "shop 5 0" and dto = "request [?item]" and item = ?item
            and p = "productP1 5 0" and newId = "''o1''" and now = t0,
          THEN conjunct1, rule_format, OF hyp]
  obtain msg where
    m: "createOrder ''o1'' t0 (request [?item]) (shop 5 0) = (shop 5 0, Inl (BadRequestException msg))"
    by blast
  have "snd (createOrder ''o1'' t0 (request [?item]) (shop 5 0)) =
          Inl (BadRequestException ''Insufficient stock for Widget'')"
    by (simp add: Let_def createOrder_def request_def shop_def productP1_def product_findMany_def)
  with m have one: "createOrder ''o1'' t0 (request [?item]) (shop 5 0) =
     (shop 5 0, Inl (BadRequestException ''Insufficient stock for Widget''))"
    by simp
  have nf: "snd (createOrder ''o1'' t0 ?none (shop 5 0)) =
          Inl (NotFoundException ''Some products not found'')"
    by (simp add: Let_def createOrder_def request_def shop_def productP1_def product_findMany_def)
  then have hyp2: "createOrder ''o1'' t0 ?none (shop 5 0) =
      (fst (createOrder ''o1'' t0 ?none (shop 5 0)), Inl (NotFoundException ''Some products not found'')) \<and>
      ((\<exists>m. NotFoundException ''Some products not found'' = NotFoundException m) \<or>
       (\<exists>m. NotFoundException ''Some products not found'' = BadRequestException m))"
    by (simp add: prod_eq_iff)
  from createOrder_insufficient_stock
         [where s = "shop 5 0" and dto = ?none and newId = "''o1''" and now = t0
            and s' = "fst (createOrder ''o1'' t0 ?none (shop 5 0))"
            and e = "NotFoundException ''Some products not found''",
          THEN conjunct2, rule_format, OF hyp2]
  have two: "fst (createOrder ''o1'' t0 ?none (shop 5 0)) = shop 5 0" .
  from one nf two show ?thesis by (intro conjI)
qed

text \<open>
  C5, as stated, fails. With ten units on hand and ten reserved none is available, yet an
  order for one unit is accepted and stored. And when one item asks for more than the
  stock while another names a product that does not exist, the call fails with
  \<^verbatim>\<open>NotFoundException\<close>, not with \<^verbatim>\<open>BadRequestException\<close>.
\<close>

theorem createOrder_stores_unavailable:
  "available \<lparr>stock_quantity = 10, stock_reserved = 10\<rparr> < 1 \<and>
   orders (prisma (fst (createOrder ''o3'' t0 (request [\<lparr>productId = ''P1'', quantity = 1\<rparr>])
                          (shop 10 10)))) =
     [\<lparr>order_id = ''o3'', order_userId = ''u1'', order_status = PENDING,
       order_totalAmount = 10, order_shippingAddressId = ''a1'',
       order_items = [\<lparr>item_productId = ''P1'', item_quantity = 1, item_price = 10\<rparr>]\<rparr>] \<and>
   createOrder ''o4'' t0 (request [\<lparr>productId = ''P1'', quantity = 9\<rparr>,
                                  \<lparr>productId = ''P2'', quantity = 1\<rparr>]) (shop 5 0) =
     (shop 5 0, Inl (NotFoundException ''Some products not found''))"
  by (simp add: available_def Let_def createOrder_def request_def shop_def productP1_def
      product_findMany_def order_create_def rabbitmq_publish_def publish_def client0_def
      Buffer_from_def OrderCreatedEvent_def List.map_filter_simps)

text \<open>
  C6 at a request that lists the product \<open>P1\<close>, which exists, in two items: the call fails
  with the \<^verbatim>\<open>NotFoundException\<close> "Some products not found". (By
  \<open>createOrder_NotFound_iff\<close> the exception is thrown exactly when a product is missing
  or a product id is repeated: the check compares the number of rows found with the number
  of items.)
\<close>

theorem createOrder_repeated_product_NotFound:
  "productById (prisma (shop 5 0)) ''P1'' = Some (productP1 5 0) \<and>
   createOrder ''o5'' t0 (request [\<lparr>productId = ''P1'', quantity = 1\<rparr>,
                                  \<lparr>productId = ''P1'', quantity = 1\<rparr>]) (shop 5 0) =
     (shop 5 0, Inl (NotFoundException ''Some products not found''))"
  by (simp add: productById_def Let_def createOrder_def request_def shop_def productP1_def
      product_findMany_def)

section \<open>Claims on the broker client\<close>

lemma onMessage_parse_error:
  assumes "channel c = Some ch" and "JSON_parse (content msg) = Inl e"
  shows "onMessage callback (Some msg) a c =
           ((a, c\<lparr>calls := calls c @ [ChannelNack msg False True]\<rparr>), Inr ())"
  using assms by (simp add: onMessage_def onMessage_catch_def channel_nack_def)

lemma onMessage_callback_error:
  assumes "JSON_parse (content msg) = Inr v" and "callback v a c = ((a', c'), Inl e)"
    and "channel c' = Some ch"
  shows "onMessage callback (Some msg) a c =
           ((a', c'\<lparr>calls := calls c' @ [ChannelNack msg False True]\<rparr>), Inr ())"
  using assms by (simp add: onMessage_def onMessage_catch_def channel_nack_def)

lemma onMessage_callback_ok:
  assumes "JSON_parse (content msg) = Inr v" and "callback v a c = ((a', c'), Inr u)"
    and "channel c' = Some ch"
  shows "onMessage callback (Some msg) a c =
           ((a', c'\<lparr>calls := calls c' @ [ChannelAck msg]\<rparr>), Inr ())"
  using assms by (simp add: onMessage_def channel_ack_def)

lemma deliver_parse_error:
  assumes "channel c = Some ch" and "JSON_parse (content msg) = Inl e"
  shows "deliver callback (replicate n msg) a c =
           ((a, c\<lparr>calls := calls c @ replicate n (ChannelNack msg False True)\<rparr>), Inr ())"
  using assms(1)
proof (induction n arbitrary: c)
  case 0
  then show ?case by simp
next
  case (Suc n)
  let ?c = "c\<lparr>calls := calls c @ [ChannelNack msg False True]\<rparr>"
  have one: "onMessage callback (Some msg) a c = ((a, ?c), Inr ())"
    using onMessage_parse_error [OF Suc.prems assms(2)] .
  have "channel ?c = Some ch"
    using Suc.prems by simp
  from Suc.IH [OF this] one show ?case
    by (simp add: replicate_app_Cons_same)
qed

text \<open>
  C10. With the channel in place, a delivered message whose body is not a JSON text is
  answered with \<^verbatim>\<open>nack(msg, false, true)\<close> and nothing else: the state the handler works
  on is untouched, whatever the handler is, and no \<^verbatim>\<open>ack\<close> is sent. Redelivered any
  number of times, it is rejected and requeued each time. A handler that throws on a
  decoded body gets the same answer. The \<^verbatim>\<open>ack\<close> is sent when the body has been decoded
  and the handler has completed on it, after the handler's own effects.
\<close>

theorem subscribe_undecodable_requeued:
  assumes ch: "channel c = Some ch"
    and bad: "JSON_parse (content msg) = Inl e"
  shows "onMessage callback (Some msg) a c =
           ((a, c\<lparr>calls := calls c @ [ChannelNack msg False True]\<rparr>), Inr ()) \<and>
         deliver callback (replicate n msg) a c =
           ((a, c\<lparr>calls := calls c @ replicate n (ChannelNack msg False True)\<rparr>), Inr ()) \<and>
         (JSON_parse (content other) = Inr v \<and> callback v a c = ((a', c'), Inl e') \<and>
          channel c' = Some ch' \<longrightarrow>
            onMessage callback (Some other) a c =
              ((a', c'\<lparr>calls := calls c' @ [ChannelNack other False True]\<rparr>), Inr ())) \<and>
         (JSON_parse (content other) = Inr v \<and> callback v a c = ((a', c'), Inr ()) \<and>
          channel c' = Some ch' \<longrightarrow>
            onMessage callback (Some other) a c =
              ((a', c'\<lparr>calls := calls c' @ [ChannelAck other]\<rparr>), Inr ()))"
proof (intro conjI impI)
  show "onMessage callback (Some msg) a c =
           ((a, c\<lparr>calls := calls c @ [ChannelNack msg False True]\<rparr>), Inr ())"
    by (rule onMessage_parse_error [OF ch bad])
  show "deliver callback (replicate n msg) a c =
           ((a, c\<lparr>calls := calls c @ replicate n (ChannelNack msg False True)\<rparr>), Inr ())"
    by (rule deliver_parse_error [OF ch bad])
next
  assume "JSON_parse (content other) = Inr v \<and> callback v a c = ((a', c'), Inl e') \<and>
          channel c' = Some ch'"
  then show "onMessage callback (Some other) a c =
              ((a', c'\<lparr>calls := calls c' @ [ChannelNack other False True]\<rparr>), Inr ())"
    by (simp add: onMessage_callback_error)
next
  assume "JSON_parse (content other) = Inr v \<and> callback v a c = ((a', c'), Inr ()) \<and>
          channel c' = Some ch'"
  then show "onMessage callback (Some other) a c =
              ((a', c'\<lparr>calls := calls c' @ [ChannelAck other]\<rparr>), Inr ())"
    by (simp add: onMessage_callback_ok)
qed

text \<open>
  The theorem at the message \<open>garbled\<close>, delivered once and three times to the subscriber
  \<open>collect\<close>, which receives nothing, and at the message \<open>parcel\<close>, which is rejected
  when the subscriber \<open>refuse\<close> throws and acknowledged when \<open>collect\<close> has taken it.
\<close>

theorem subscribe_undecodable_requeued_witness:
  "onMessage collect (Some garbled) [] client0 =
     (([], client0\<lparr>calls := [ChannelNack garbled False True]\<rparr>), Inr ()) \<and>
   deliver collect [garbled, garbled, garbled] [] client0 =
     (([], client0\<lparr>calls := [ChannelNack garbled False True, ChannelNack garbled False True,
                               ChannelNack garbled False True]\<rparr>), Inr ()) \<and>
   onMessage refuse (Some parcel) [] client0 =
     (([], client0\<lparr>calls := [ChannelNack parcel False True]\<rparr>), Inr ()) \<and>
   onMessage collect (Some parcel) [] client0 =
     (([VObj [(''orderId'', VStr ''o1'')]], client0\<lparr>calls := [ChannelAck parcel]\<rparr>), Inr ())"
proof -
  have ch: "channel client0 = Some (Channel (Connection ''amqp://localhost:5672''))"
    by (simp add: client0_def)
  have bad: "JSON_parse (content garbled) = Inl (SyntaxError ''Unexpected token'')"
    by (simp add: garbled_def JSON_parse_def)
  have c0: "calls client0 = []"
    by (simp add: client0_def)
  have three: "replicate 3 x = [x, x, x]" for x :: 'b
    by (simp add: numeral_3_eq_3)
  note w = subscribe_undecodable_requeued [OF ch bad, where n = 3 and a = "[]"]
  have one: "onMessage collect (Some garbled) [] client0 =
     (([], client0\<lparr>calls := [ChannelNack garbled False True]\<rparr>), Inr ())"
    using w [where callback = collect, THEN conjunct1] by (simp only: c0 append_Nil)
  have more: "deliver collect (replicate 3 garbled) [] client0 =
     (([], client0\<lparr>calls := replicate 3 (ChannelNack garbled False True)\<rparr>), Inr ())"
    using w [where callback = collect, THEN conjunct2, THEN conjunct1]
    by (simp only: c0 append_Nil)
  have thrown: "JSON_parse (content parcel) = Inr (VObj [(''orderId'', VStr ''o1'')]) \<and>
      refuse (VObj [(''orderId'', VStr ''o1'')]) [] client0 =
        (([], client0), Inl (Error ''handler failed'')) \<and>
      channel client0 = Some (Channel (Connection ''amqp://localhost:5672''))"
    by (simp add: parcel_def JSON_parse_def refuse_def ch)
  have nack: "onMessage refuse (Some parcel) [] client0 =
     (([], client0\<lparr>calls := [ChannelNack parcel False True]\<rparr>), Inr ())"
    using w [where callback = refuse, THEN conjunct2, THEN conjunct2, THEN conjunct1,
             rule_format, OF thrown]
    by (simp only: c0 append_Nil)
  have handled: "JSON_parse (content parcel) = Inr (VObj [(''orderId'', VStr ''o1'')]) \<and>
      collect (VObj [(''orderId'', VStr ''o1'')]) [] client0 =
        (([VObj [(''orderId'', VStr ''o1'')]], client0), Inr ()) \<and>
      channel client0 = Some (Channel (Connection ''amqp://localhost:5672''))"
    by (simp add: parcel_def JSON_parse_def collect_def ch)
  have ack: "onMessage collect (Some parcel) [] client0 =
     (([VObj [(''orderId'', VStr ''o1'')]], client0\<lparr>calls := [ChannelAck parcel]\<rparr>), Inr ())"
    using w [where callback = collect, THEN conjunct2, THEN conjunct2, THEN conjunct2,
             rule_format, OF handled]
    by (simp only: c0 append_Nil)
  from one more nack ack show ?thesis
    by (simp only: three)
qed

text \<open>
  C9 (amended). With a channel and a connection in place, \<^verbatim>\<open>close\<close> first closes the
  channel and, when that has succeeded, closes the connection, and its outcome is that of
  closing the connection. When closing the channel fails, the error ends \<^verbatim>\<open>close\<close>: it is
  thrown to the caller and the connection is not closed.
\<close>

theorem close_channel_then_connection:
  assumes "channel c = Some ch" and "connection c = Some conn"
  shows "close None connectionClose c =
           (c\<lparr>calls := calls c @ [ChannelClose, ConnectionClose]\<rparr>,
            case connectionClose of None \<Rightarrow> Inr () | Some e \<Rightarrow> Inl e) \<and>
         close (Some e) connectionClose c = (c\<lparr>calls := calls c @ [ChannelClose]\<rparr>, Inl e)"
  using assms by (simp add: close_def Let_def split: option.splits)

theorem close_channel_then_connection_witness:
  "close None None client0 = (client0\<lparr>calls := [ChannelClose, ConnectionClose]\<rparr>, Inr ()) \<and>
   close (Some (Error ''Channel closed'')) None client0 =
     (client0\<lparr>calls := [ChannelClose]\<rparr>, Inl (Error ''Channel closed''))"
proof -
  have ch: "channel client0 = Some (Channel (Connection ''amqp://localhost:5672''))"
    and conn: "connection client0 = Some (Connection ''amqp://localhost:5672'')"
    and c0: "calls client0 = []"
    by (simp_all add: client0_def)
  from close_channel_then_connection [OF ch conn, where connectionClose = None
      and e = "Error ''Channel closed''"]
  show ?thesis by (simp add: c0)
qed

text \<open>
  C9, as stated, fails: when closing the channel is rejected, \<^verbatim>\<open>connection.close()\<close> is
  never called.
\<close>

theorem close_leaves_connection_open:
  "ConnectionClose \<notin> set (calls (fst (close (Some (Error ''Channel closed'')) None client0))) \<and>
   snd (close (Some (Error ''Channel closed'')) None client0) = Inl (Error ''Channel closed'')"
  by (simp add: close_def Let_def client0_def)

section \<open>The round trip through the wire format\<close>

lemma roundtrip_fields:
  assumes "\<And>k v. (k, v) \<in> set ps \<Longrightarrow> map_option fromJSON (JSON_stringify v) = Some (f v)"
  shows "map (map_prod (\<lambda>a. a) fromJSON)
           (List.map_filter (\<lambda>(k, r). map_option (Pair k) r)
              (map (map_prod (\<lambda>a. a) JSON_stringify) ps))
         = map (map_prod (\<lambda>a. a) f) ps"
  using assms
proof (induction ps)
  case Nil
  then show ?case by (simp add: List.map_filter_simps)
next
  case (Cons p ps)
  obtain k v where p: "p = (k, v)" by (cases p)
  from Cons.prems [of k v] p obtain j where
    j: "JSON_stringify v = Some j" and fj: "fromJSON j = f v"
    by auto
  have "map (map_prod (\<lambda>a. a) fromJSON)
           (List.map_filter (\<lambda>(k, r). map_option (Pair k) r)
              (map (map_prod (\<lambda>a. a) JSON_stringify) ps))
         = map (map_prod (\<lambda>a. a) f) ps"
  proof (rule Cons.IH)
    fix k' v' assume "(k', v') \<in> set ps"
    then have "(k', v') \<in> set (p # ps)" by simp
    then show "map_option fromJSON (JSON_stringify v') = Some (f v')" by (rule Cons.prems)
  qed
  with p j fj show ?case
    by (simp add: List.map_filter_simps id_def)
qed

lemma roundtrip_elements:
  assumes "\<And>x. x \<in> set xs \<Longrightarrow> map_option fromJSON (JSON_stringify x) = Some x"
  shows "map fromJSON (map (\<lambda>r. case r of None \<Rightarrow> JNull | Some j \<Rightarrow> j) (map JSON_stringify xs)) = xs"
  using assms
proof (induction xs)
  case Nil
  then show ?case by simp
next
  case (Cons x xs)
  from Cons.prems [of x] obtain j where "JSON_stringify x = Some j" "fromJSON j = x"
    by auto
  moreover have "map fromJSON (map (\<lambda>r. case r of None \<Rightarrow> JNull | Some j \<Rightarrow> j) (map JSON_stringify xs)) = xs"
  proof (rule Cons.IH)
    fix y assume "y \<in> set xs"
    then have "y \<in> set (x # xs)" by simp
    then show "map_option fromJSON (JSON_stringify y) = Some y" by (rule Cons.prems)
  qed
  ultimately show ?case by simp
qed

lemma plain_roundtrip: "plain v \<Longrightarrow> map_option fromJSON (JSON_stringify v) = Some v"
proof (induction v)
  case (VArr xs)
  have "\<And>x. x \<in> set xs \<Longrightarrow> map_option fromJSON (JSON_stringify x) = Some x"
    using VArr by (auto simp: list_all_iff)
  from roundtrip_elements [where xs = xs, OF this] show ?case by simp
next
  case (VObj ps)
  have "map_option fromJSON (JSON_stringify v) = Some v" if "(k, v) \<in> set ps" for k v
    using VObj that by (fastforce simp: list_all_iff)
  then have "map (map_prod (\<lambda>a. a) fromJSON)
           (List.map_filter (\<lambda>(k, r). map_option (Pair k) r)
              (map (map_prod (\<lambda>a. a) JSON_stringify) ps))
         = map (map_prod (\<lambda>a. a) (\<lambda>v. v)) ps"
    by (rule roundtrip_fields)
  then show ?case by (simp add: id_def)
qed simp_all

lemma eventField_roundtrip:
  "eventField v \<Longrightarrow> map_option fromJSON (JSON_stringify v) = Some (dateAsText v)"
  by (cases v) (simp_all add: eventField_def dateAsText_def plain_roundtrip list_all_iff
      del: plain.simps(7,8) JSON_stringify.simps(7,8))

lemma dateAsText_fixed:
  "eventField v \<Longrightarrow> dateAsText v = v \<longleftrightarrow> plain v"
  by (cases v) (simp_all add: eventField_def dateAsText_def)

lemma stringify_event:
  assumes "list_all (\<lambda>(k, v). eventField v) ps"
  shows "\<exists>j. JSON_stringify (VObj ps) = Some j \<and>
             fromJSON j = VObj (map (\<lambda>(k, v). (k, dateAsText v)) ps)"
proof -
  have "map_option fromJSON (JSON_stringify v) = Some (dateAsText v)" if "(k, v) \<in> set ps" for k v
  proof -
    from assms that have "eventField v" by (auto simp: list_all_iff)
    then show ?thesis by (rule eventField_roundtrip)
  qed
  then have "map (map_prod (\<lambda>a. a) fromJSON)
           (List.map_filter (\<lambda>(k, r). map_option (Pair k) r)
              (map (map_prod (\<lambda>a. a) JSON_stringify) ps))
         = map (map_prod (\<lambda>a. a) dateAsText) ps"
    by (rule roundtrip_fields)
  also have "map_prod (\<lambda>a. a) dateAsText = (\<lambda>(k, v). (k, dateAsText v))"
    by (auto simp: fun_eq_iff)
  finally have eq: "map (map_prod (\<lambda>a. a) fromJSON)
           (List.map_filter (\<lambda>(k, r). map_option (Pair k) r)
              (map (map_prod (\<lambda>a. a) JSON_stringify) ps))
         = map (\<lambda>(k, v). (k, dateAsText v)) ps" .
  show ?thesis
    by (simp add: id_def eq)
qed

text \<open>
  C8 (amended). An event object whose fields are JSON values or dates, published by a
  connected client, goes to the channel as one message; a subscriber consuming that
  message is handed the object with every date field replaced by its ISO 8601 text, and
  the message is acknowledged. What is handed over equals what was published exactly when
  no field is a date: the \<open>timestamp\<close> of an event arrives as a string.
\<close>

theorem publish_consume_event:
  assumes ch: "channel c = Some ch"
    and fields: "list_all (\<lambda>(k, v). eventField v) ps"
    and sub: "channel c' = Some ch'"
  shows "\<exists>j. publish exchange routingKey (VObj ps) c =
               (c\<lparr>calls := calls c @ [ChannelPublish exchange routingKey (JsonText j) True]\<rparr>,
                Inr True) \<and>
             onMessage collect (Some \<lparr>content = JsonText j, deliveryTag = tag\<rparr>) [] c' =
               (([VObj (map (\<lambda>(k, v). (k, dateAsText v)) ps)],
                 c'\<lparr>calls := calls c' @ [ChannelAck \<lparr>content = JsonText j, deliveryTag = tag\<rparr>]\<rparr>),
                Inr ()) \<and>
             (VObj (map (\<lambda>(k, v). (k, dateAsText v)) ps) = VObj ps \<longleftrightarrow>
                list_all (\<lambda>(k, v). plain v) ps)"
proof -
  from stringify_event [OF fields] obtain j where
    j: "JSON_stringify (VObj ps) = Some j" and
    dec: "fromJSON j = VObj (map (\<lambda>(k, v). (k, dateAsText v)) ps)"
    by blast
  have pub: "publish exchange routingKey (VObj ps) c =
               (c\<lparr>calls := calls c @ [ChannelPublish exchange routingKey (JsonText j) True]\<rparr>,
                Inr True)"
    using ch j by (simp add: publish_def Buffer_from_def del: JSON_stringify.simps)
  have got: "onMessage collect (Some \<lparr>content = JsonText j, deliveryTag = tag\<rparr>) [] c' =
               (([VObj (map (\<lambda>(k, v). (k, dateAsText v)) ps)],
                 c'\<lparr>calls := calls c' @ [ChannelAck \<lparr>content = JsonText j, deliveryTag = tag\<rparr>]\<rparr>),
                Inr ())"
    using sub dec
    by (simp add: onMessage_def JSON_parse_def collect_def channel_ack_def)
  have same: "map (\<lambda>(k, v). (k, dateAsText v)) ps = ps \<longleftrightarrow> list_all (\<lambda>(k, v). plain v) ps"
    using fields
  proof (induction ps)
    case Nil
    then show ?case by simp
  next
    case (Cons p ps)
    then show ?case
      by (cases p) (auto simp: dateAsText_fixed)
  qed
  from pub got same show ?thesis by auto
qed

text \<open>
  The theorem at the \<^verbatim>\<open>order.cancelled\<close> event that \<^verbatim>\<open>cancelOrder\<close> publishes for the
  order \<open>o1\<close> at \<open>t0\<close>.
\<close>

theorem publish_consume_event_witness:
  "\<exists>j. publish ''orders.exchange'' ''order.cancelled'' (OrderCancelledEvent ''o1'' t0) client0 =
         (client0\<lparr>calls := [ChannelPublish ''orders.exchange'' ''order.cancelled'' (JsonText j) True]\<rparr>,
          Inr True) \<and>
       onMessage collect (Some \<lparr>content = JsonText j, deliveryTag = 1\<rparr>) [] client0 =
         (([VObj [(''orderId'', VStr ''o1''), (''reason'', VStr ''Cancelled by user''),
                  (''timestamp'', VStr ''2024-01-01T00:00:00.000Z'')]],
           client0\<lparr>calls := [ChannelAck \<lparr>content = JsonText j, deliveryTag = 1\<rparr>]\<rparr>),
          Inr ())"
proof -
  have ch: "channel client0 = Some (Channel (Connection ''amqp://localhost:5672''))"
    and c0: "calls client0 = []"
    by (simp_all add: client0_def)
  have ev: "OrderCancelledEvent ''o1'' t0 =
      VObj [(''orderId'', VStr ''o1''), (''reason'', VStr ''Cancelled by user''),
            (''timestamp'', VDate t0)]"
    by (simp add: OrderCancelledEvent_def)
  have fields: "list_all (\<lambda>(k, v). eventField v)
      [(''orderId'', VStr ''o1''), (''reason'', VStr ''Cancelled by user''),
       (''timestamp'', VDate t0)]"
    by (simp add: eventField_def)
  from publish_consume_event [OF ch fields ch, where exchange = "''orders.exchange''"
      and routingKey = "''order.cancelled''" and tag = 1]
  show ?thesis
    unfolding ev by (simp add: c0 dateAsText_def t0_def)
qed

text \<open>
  C8, as stated, fails: the \<^verbatim>\<open>order.cancelled\<close> event published for \<open>o1\<close> at \<open>t0\<close> is
  handed to the subscriber with a string where the published object has a date.
\<close>

theorem publish_consume_timestamp_differs:
  "publish ''orders.exchange'' ''order.cancelled'' (OrderCancelledEvent ''o1'' t0) client0 =
     (client0\<lparr>calls := [ChannelPublish ''orders.exchange'' ''order.cancelled''
        (JsonText (JObj [(''orderId'', JStr ''o1''), (''reason'', JStr ''Cancelled by user''),
                         (''timestamp'', JStr ''2024-01-01T00:00:00.000Z'')])) True]\<rparr>,
      Inr True) \<and>
   fst (fst (onMessage collect
      (Some \<lparr>content = JsonText (JObj [(''orderId'', JStr ''o1''),
                                        (''reason'', JStr ''Cancelled by user''),
                                        (''timestamp'', JStr ''2024-01-01T00:00:00.000Z'')]),
              deliveryTag = 1\<rparr>) [] client0)) =
     [VObj [(''orderId'', VStr ''o1''), (''reason'', VStr ''Cancelled by user''),
            (''timestamp'', VStr ''2024-01-01T00:00:00.000Z'')]] \<and>
   VObj [(''orderId'', VStr ''o1''), (''reason'', VStr ''Cancelled by user''),
         (''timestamp'', VStr ''2024-01-01T00:00:00.000Z'')] \<noteq> OrderCancelledEvent ''o1'' t0"
  by (simp add: publish_def Buffer_from_def OrderCancelledEvent_def List.map_filter_simps
      client0_def t0_def onMessage_def JSON_parse_def collect_def channel_ack_def)

end
